theory Spec2Isabelle
  imports Complex_Main "HOL-Library.Sublist" "HOL-Library.AList"
    "HOL-Library.Char_ord" "HOL-Library.List_Lexorder"
begin

section \<open>Python values shared by all operations\<close>

text \<open>
  The exceptions the extractor can raise. None of them is declared by the
  program: they all come from list indexing, dict lookup, iterator exhaustion and
  library conversions; \<open>CsvError\<close> is the error of the \<open>csv\<close> module,
  \<open>EmptyDataError\<close> and \<open>ParserError\<close> are those of \<open>pandas.errors\<close>. The error taxonomy of the specification names the
  situations, not the exception classes: ``no archive member matches'' is the
  \<open>IndexError\<close> of \<open>positives[0]\<close>, ``the Events section is absent'' is the
  \<open>KeyError\<close> of \<open>dasdict["Events"]\<close>.
\<close>

datatype exn =
    IndexError
  | KeyError
  | ValueError
  | TypeError
  | AttributeError
  | StopIteration
  | DecodeError
  | CsvError
  | EmptyDataError
  | ParserError

text \<open>
  Python strings are sequences of code points; after decoding a single-byte
  encoding every code point is below 256, so a \<^typ>\<open>string\<close> with one
  \<^typ>\<open>char\<close> per code point represents them.  \<open>pat in s\<close> on strings is
  contiguous containment, \<^const>\<open>sublist\<close>; \<open>s.startswith(p)\<close> is
  \<^const>\<open>prefix\<close>.
\<close>

section \<open>Archive Reader: \<open>read_daszip\<close>\<close>

text \<open>
  An opened zip archive is the list of its members in directory order, each a
  name and its bytes.  \<open>namelist()\<close> lists every entry; \<open>read(name)\<close> looks
  the name up in the archive's name table, where a later entry of the same name
  has replaced an earlier one.  The decoder is the codec selected by
  \<open>encoding\<close>, a parameter of the model.
\<close>

type_synonym 'b zipfile = "(string \<times> 'b) list"

definition namelist :: "'b zipfile \<Rightarrow> string list" where
  "namelist zf = map fst zf"

definition zf_read :: "'b zipfile \<Rightarrow> string \<Rightarrow> exn + 'b" where
  "zf_read zf name =
     (case filter (\<lambda>m. fst m = name) zf of
        [] \<Rightarrow> Inl KeyError
      | m # ms \<Rightarrow> Inr (snd (last (m # ms))))"

text \<open>
  The result carries the warnings issued on the way (\<open>warnings.warn\<close> does not
  interrupt the call) and the decoded text.
\<close>

definition read_daszip ::
  "(string \<Rightarrow> 'b \<Rightarrow> exn + string) \<Rightarrow> 'b zipfile \<Rightarrow> string \<Rightarrow> string
     \<Rightarrow> exn + (string list \<times> string)" where
  "read_daszip decode zf internal_file_name_pattern encoding =
     (let zf_list = namelist zf;
          positives = filter (\<lambda>file. sublist internal_file_name_pattern file) zf_list;
          warned = (if length positives > 1
                    then [''Too many files found in the zip archive. File selected: ''
                            @ hd positives]
                    else [])
      in case positives of
           [] \<Rightarrow> Inl IndexError
         | p # _ \<Rightarrow>
             (case zf_read zf p of
                Inl e \<Rightarrow> Inl e
              | Inr bytes \<Rightarrow>
                  (case decode encoding bytes of
                     Inl e \<Rightarrow> Inl e
                   | Inr internal_file \<Rightarrow> Inr (warned, internal_file))))"

section \<open>Tables\<close>

text \<open>
  A pandas \<open>DataFrame\<close> is modelled by its columns in order, each a name and
  its cells; all columns of a frame have the same length.  A cell is null
  (\<open>NaN\<close>, \<open>None\<close>, \<open>NaT\<close>), a string, a float or a time difference.  The
  float type is the parameter \<open>'a\<close>: the program only compares floats with
  zero and takes absolute values.
\<close>

datatype 'a cell = Null | Str string | Num 'a | Timedelta int

type_synonym 'a series = "'a cell list"
type_synonym 'a dataframe = "(string \<times> 'a series) list"

fun is_str :: "'a cell \<Rightarrow> bool" where
  "is_str (Str s) = True"
| "is_str _ = False"


text \<open>\<open>df[name]\<close> raises \<open>KeyError\<close> for a missing column.\<close>

definition getitem :: "'a dataframe \<Rightarrow> string \<Rightarrow> exn + 'a series" where
  "getitem df name = (case map_of df name of None \<Rightarrow> Inl KeyError | Some col \<Rightarrow> Inr col)"

text \<open>\<open>df[name] = col\<close> replaces the column in place or appends a new last column.\<close>

definition setitem :: "'a dataframe \<Rightarrow> string \<Rightarrow> 'a series \<Rightarrow> 'a dataframe" where
  "setitem df name col = AList.update name col df"

text \<open>\<open>df[mask]\<close> keeps the rows where the boolean mask is true.\<close>

fun select :: "bool list \<Rightarrow> 'b list \<Rightarrow> 'b list" where
  "select (b # bs) (x # xs) = (if b then x # select bs xs else select bs xs)"
| "select _ _ = []"

definition select_rows :: "'a dataframe \<Rightarrow> bool list \<Rightarrow> 'a dataframe" where
  "select_rows df fltr = map (\<lambda>(name, col). (name, select fltr col)) df"

text \<open>
  The \<open>.str\<close> accessor exists on columns of strings only: on a non-empty column
  without any string (a numeric column, as \<open>read_csv\<close> makes of a column of
  empty fields) it raises \<open>AttributeError\<close>.  Its methods give \<open>NaN\<close> on the
  cells that are not strings.
\<close>

definition str_accessor :: "'a series \<Rightarrow> exn + 'a series" where
  "str_accessor col =
     (if col \<noteq> [] \<and> (\<forall>c \<in> set col. \<not> is_str c) then Inl AttributeError else Inr col)"

fun str_startswith :: "string \<Rightarrow> 'a cell \<Rightarrow> bool option" where
  "str_startswith p (Str s) = Some (prefix p s)"
| "str_startswith p _ = None"

text \<open>
  \<open>str.contains(pat, na=False)\<close>.  The pattern is a regular expression; the
  program builds it as \<open>"Unit " + c\<close> with \<open>c\<close> the last character of a
  section name, which matches literally when \<open>c\<close> is a digit or a letter.
\<close>

fun str_contains_na_false :: "string \<Rightarrow> 'a cell \<Rightarrow> bool" where
  "str_contains_na_false p (Str s) = sublist p s"
| "str_contains_na_false p _ = False"

fun isnull :: "'a cell \<Rightarrow> bool" where
  "isnull Null = True"
| "isnull _ = False"

fun fillna_False :: "bool option \<Rightarrow> bool" where
  "fillna_False None = False"
| "fillna_False (Some b) = b"

section \<open>Event Extractor: \<open>h_extract_volume_changes\<close>\<close>

text \<open>
  \<open>float(s)\<close> raises \<open>ValueError\<close> on text that is no number (\<open>None\<close>
  here) and otherwise gives a float, which may be \<open>nan\<close>; a \<open>nan\<close> in a
  float column is a null cell.
\<close>

datatype 'a pyfloat = Nan | Flt 'a

fun float_cell :: "'a pyfloat \<Rightarrow> 'a cell" where
  "float_cell Nan = Null"
| "float_cell (Flt v) = Num v"

text \<open>\<open>s[13:-13]\<close>: empty when \<open>s\<close> has 26 characters or fewer.\<close>

definition slice_13_m13 :: "string \<Rightarrow> string" where
  "slice_13_m13 s = take (length s - 26) (drop 13 s)"

text \<open>
  One cell of \<open>events_df[fltr]["Description"].str[13:-13].astype(float)
  .reindex(fltr.index)\<close>: the rows outside the filter are \<open>NaN\<close>; a row inside
  it is a string (the filter comes from \<open>startswith\<close>), sliced and converted.
\<close>

fun vol_change_cell :: "(string \<Rightarrow> 'a pyfloat option) \<Rightarrow> bool \<Rightarrow> 'a cell \<Rightarrow> exn + 'a cell" where
  "vol_change_cell to_float False c = Inr Null"
| "vol_change_cell to_float True (Str s) =
     (case to_float (slice_13_m13 s) of None \<Rightarrow> Inl ValueError | Some f \<Rightarrow> Inr (float_cell f))"
| "vol_change_cell to_float True c = Inr Null"

text \<open>Collecting elementwise results: the first exception aborts the whole conversion.\<close>

fun collect :: "('e + 'b) list \<Rightarrow> 'e + 'b list" where
  "collect [] = Inr []"
| "collect (r # rs) =
     (case r of
        Inl e \<Rightarrow> Inl e
      | Inr x \<Rightarrow> (case collect rs of Inl e \<Rightarrow> Inl e | Inr xs \<Rightarrow> Inr (x # xs)))"

text \<open>\<open>s.where(s >= 0)\<close> and \<open>s.where(s < 0).abs()\<close> on a float column.\<close>

fun where_ge_0 :: "'a::{zero,ord} cell \<Rightarrow> 'a cell" where
  "where_ge_0 (Num v) = (if v \<ge> 0 then Num v else Null)"
| "where_ge_0 c = Null"

fun where_lt_0_abs :: "'a::{zero,ord,abs} cell \<Rightarrow> 'a cell" where
  "where_lt_0_abs (Num v) = (if v < 0 then Num \<bar>v\<bar> else Null)"
| "where_lt_0_abs c = Null"

definition h_extract_volume_changes ::
  "(string \<Rightarrow> 'a pyfloat option) \<Rightarrow> 'a::{zero,ord,abs} dataframe \<Rightarrow> exn + 'a dataframe" where
  "h_extract_volume_changes to_float events_df =
     (case getitem events_df ''Description'' of
        Inl e \<Rightarrow> Inl e
      | Inr description \<Rightarrow>
     (case str_accessor description of
        Inl e \<Rightarrow> Inl e
      | Inr description \<Rightarrow>
     (let fltr_vol_change = map (fillna_False \<circ> str_startswith ''Added volume'') description
      in case collect (map2 (vol_change_cell to_float) fltr_vol_change description) of
           Inl e \<Rightarrow> Inl e
         | Inr vol_change_float \<Rightarrow>
             (let new_events_df = events_df;
                  new_events_df = setitem new_events_df ''Vol_added''
                                    (map where_ge_0 vol_change_float);
                  new_events_df = setitem new_events_df ''Liquid_added''
                                    (map (\<lambda>_. Null) vol_change_float);
                  new_events_df = setitem new_events_df ''Vol_removed''
                                    (map where_lt_0_abs vol_change_float);
                  new_events_df = setitem new_events_df ''Feed_pump''
                                    (map (\<lambda>_. Null) vol_change_float);
                  new_events_df = setitem new_events_df ''Feed_balance''
                                    (map (\<lambda>_. Null) vol_change_float)
              in Inr new_events_df))))"

text \<open>
  The value of one row of \<open>vol_change_float\<close> when the conversion succeeds
  (a description that does not convert makes the whole function raise).
\<close>

definition vol_change_of :: "(string \<Rightarrow> 'a pyfloat option) \<Rightarrow> 'a cell \<Rightarrow> 'a cell" where
  "vol_change_of to_float c =
     (case c of
        Str s \<Rightarrow>
          (if prefix ''Added volume'' s
           then (case to_float (slice_13_m13 s) of None \<Rightarrow> Null | Some f \<Rightarrow> float_cell f)
           else Null)
      | _ \<Rightarrow> Null)"

subsection \<open>A decimal reader and an events table for the examples\<close>

text \<open>
  \<open>float\<close> restricted to plain decimal numerals (an optional minus sign, digits,
  an optional fraction), with exact rational values; it instantiates the
  conversion parameter in the examples.
\<close>

fun digit_val :: "char \<Rightarrow> nat option" where
  "digit_val c = (if 48 \<le> (of_char c :: nat) \<and> (of_char c :: nat) \<le> 57 then Some (of_char c - 48) else None)"

fun digits_val :: "nat \<Rightarrow> string \<Rightarrow> nat option" where
  "digits_val acc [] = Some acc"
| "digits_val acc (c # cs) =
     (case digit_val c of None \<Rightarrow> None | Some d \<Rightarrow> digits_val (10 * acc + d) cs)"

definition unsigned_decimal :: "string \<Rightarrow> rat option" where
  "unsigned_decimal s =
     (let ip = takeWhile (\<lambda>c. c \<noteq> CHR ''.'') s;
          fp = drop (Suc (length ip)) s
      in if ip = [] \<or> (fp = [] \<and> length ip < length s) then None
         else case (digits_val 0 ip, digits_val 0 fp) of
                (Some n, Some m) \<Rightarrow> Some (of_nat n + of_nat m / 10 ^ length fp)
              | _ \<Rightarrow> None)"

fun decimal_float :: "string \<Rightarrow> rat pyfloat option" where
  "decimal_float (CHR ''-'' # s) = map_option (\<lambda>v. Flt (- v)) (unsigned_decimal s)"
| "decimal_float s = map_option Flt (unsigned_decimal s)"

definition example_events :: "rat dataframe" where
  "example_events =
     [(''Timestamp'', [Str ''t1'', Str ''t2'', Str ''t3'', Str ''t4'']),
      (''Reference'', [Str ''Unit 1'', Str ''Unit 2'', Null, Str ''Unit 1'']),
      (''Description'',
         [Str ''Added volume 5.00 mL to vessel'',
          Str ''Added volume -2.5 mL to vessel'',
          Str ''Stirrer started'',
          Str ''Added volume 0 mL to vessel''])]"

definition example_descr :: "rat series" where
  "example_descr =
     [Str ''Added volume 5.00 mL to vessel'',
      Str ''Added volume -2.5 mL to vessel'',
      Str ''Stirrer started'',
      Str ''Added volume 0 mL to vessel'']"

section \<open>Reactor Merge Engine: \<open>inoctime\<close> and \<open>convert_dasdict_2_cdf_dict\<close>\<close>

subsection \<open>\<open>inoctime\<close>\<close>

text \<open>\<open>df.iloc[:, j]\<close> raises \<open>IndexError\<close> when the frame has no column \<open>j\<close>.\<close>

definition iloc_col :: "'a dataframe \<Rightarrow> nat \<Rightarrow> exn + 'a series" where
  "iloc_col df j = (if j < length df then Inr (snd (df ! j)) else Inl IndexError)"

text \<open>
  \<open>first_valid_index()\<close>: the position of the first cell that is not null,
  \<open>None\<close> when there is none (the frames of this program carry the default
  index \<open>0, 1, \<dots>\<close>, so labels are positions).
\<close>

fun first_valid_index :: "'a series \<Rightarrow> nat option" where
  "first_valid_index [] = None"
| "first_valid_index (c # cs) =
     (if isnull c then map_option Suc (first_valid_index cs) else Some 0)"

text \<open>
  An instant is an integer count of nanoseconds, \<open>None\<close> is \<open>NaT\<close>.  The
  difference of two instants is a \<open>Timedelta\<close>, \<open>NaT\<close> when either is
  \<open>NaT\<close>.  \<open>pd.to_datetime\<close> is a parameter of the model, applied cell by
  cell; it may raise.
\<close>

fun sub_datetime :: "int option \<Rightarrow> int option \<Rightarrow> 'a cell" where
  "sub_datetime (Some t) (Some r) = Timedelta (t - r)"
| "sub_datetime _ _ = Null"

definition inoctime ::
  "('a cell \<Rightarrow> exn + int option) \<Rightarrow> 'a dataframe \<Rightarrow> 'a cell option \<Rightarrow> exn + 'a series" where
  "inoctime to_datetime cdf itime =
     (case (case itime of
              Some t \<Rightarrow> Inr t
            | None \<Rightarrow>
                (case iloc_col cdf 2 of
                   Inl e \<Rightarrow> Inl e
                 | Inr marker \<Rightarrow>
                     (case first_valid_index marker of
                        None \<Rightarrow> (case iloc_col cdf 0 of Inl e \<Rightarrow> Inl e | Inr ts \<Rightarrow> Inl TypeError)
                      | Some itime_idx \<Rightarrow>
                          (case iloc_col cdf 0 of
                             Inl e \<Rightarrow> Inl e
                           | Inr ts \<Rightarrow>
                               if itime_idx < length ts then Inr (ts ! itime_idx)
                               else Inl IndexError))))
      of
        Inl e \<Rightarrow> Inl e
      | Inr itime \<Rightarrow>
          (case to_datetime itime of
             Inl e \<Rightarrow> Inl e
           | Inr inoct \<Rightarrow>
               (case iloc_col cdf 0 of
                  Inl e \<Rightarrow> Inl e
                | Inr ts \<Rightarrow>
                    (case collect (map to_datetime ts) of
                       Inl e \<Rightarrow> Inl e
                     | Inr timestamp \<Rightarrow>
                         (let delta = map (\<lambda>t. sub_datetime t inoct) timestamp
                          in Inr delta)))))"

subsection \<open>\<open>pd.merge_ordered\<close>\<close>

text \<open>
  The order of join keys: numbers before strings, strings by code points, null
  keys last.
\<close>

fun cell_le :: "'a::ord cell \<Rightarrow> 'a cell \<Rightarrow> bool" where
  "cell_le c Null = True"
| "cell_le Null c = False"
| "cell_le (Num a) (Num b) = (a \<le> b)"
| "cell_le (Num a) c = True"
| "cell_le c (Num b) = False"
| "cell_le (Timedelta a) (Timedelta b) = (a \<le> b)"
| "cell_le (Timedelta a) c = True"
| "cell_le c (Timedelta b) = False"
| "cell_le (Str s) (Str t) = (s \<le> t)"

fun insort_cell :: "'a::ord cell \<Rightarrow> 'a cell list \<Rightarrow> 'a cell list" where
  "insort_cell k [] = [k]"
| "insort_cell k (c # cs) = (if cell_le k c then k # c # cs else c # insort_cell k cs)"

definition sort_keys :: "'a::ord cell list \<Rightarrow> 'a cell list" where
  "sort_keys ks = foldr insort_cell ks []"

definition key_positions :: "'a series \<Rightarrow> 'a cell \<Rightarrow> nat list" where
  "key_positions col k = filter (\<lambda>i. col ! i = k) [0..<length col]"

text \<open>
  The full outer join on one key column: the distinct keys of both sides in
  ascending order; under each key every pair of a left and a right row that carry
  it, left-major, or the rows of the one side that has it paired with nothing.
  Null keys match each other.
\<close>

definition join_rows :: "'a::ord series \<Rightarrow> 'a series \<Rightarrow> (nat option \<times> nat option) list" where
  "join_rows lkey rkey =
     concat (map (\<lambda>k. let ls = key_positions lkey k; rs = key_positions rkey k
                      in if rs = [] then map (\<lambda>l. (Some l, None)) ls
                         else if ls = [] then map (\<lambda>r. (None, Some r)) rs
                         else concat (map (\<lambda>l. map (\<lambda>r. (Some l, Some r)) rs) ls))
                (sort_keys (remdups (lkey @ rkey))))"

fun take_cell :: "'a series \<Rightarrow> nat option \<Rightarrow> 'a cell" where
  "take_cell col None = Null"
| "take_cell col (Some i) = col ! i"

fun take_key :: "'a series \<Rightarrow> 'a series \<Rightarrow> nat option \<times> nat option \<Rightarrow> 'a cell" where
  "take_key lkey rkey (Some l, r) = lkey ! l"
| "take_key lkey rkey (None, r) = take_cell rkey r"

text \<open>
  The merged frame: the columns of the left frame in their order, the key column
  filled from whichever side has the row, then the other columns of the right
  frame; a column name that both sides have gets the suffix \<open>_x\<close> on the left
  and \<open>_y\<close> on the right.  A frame without the key column raises \<open>KeyError\<close>.
\<close>

definition merge_ordered ::
  "'a::ord dataframe \<Rightarrow> 'a dataframe \<Rightarrow> string \<Rightarrow> exn + 'a dataframe" where
  "merge_ordered left right on =
     (case getitem left on of
        Inl e \<Rightarrow> Inl e
      | Inr lkey \<Rightarrow>
     (case getitem right on of
        Inl e \<Rightarrow> Inl e
      | Inr rkey \<Rightarrow>
     (let idx = join_rows lkey rkey;
          lnames = filter (\<lambda>n. n \<noteq> on) (map fst left);
          rnames = filter (\<lambda>n. n \<noteq> on) (map fst right)
      in Inr (map (\<lambda>(n, col).
                     if n = on then (n, map (take_key lkey rkey) idx)
                     else (if n \<in> set rnames then n @ ''_x'' else n,
                           map (take_cell col \<circ> fst) idx))
                left
              @ map (\<lambda>(n, col).
                      (if n \<in> set lnames then n @ ''_y'' else n,
                       map (take_cell col \<circ> snd) idx))
                  (filter (\<lambda>(n, col). n \<noteq> on) right)))))"

subsection \<open>\<open>convert_dasdict_2_cdf_dict\<close>\<close>

text \<open>
  A Python \<open>dict\<close> is an association list in insertion order with distinct keys;
  \<open>d[k]\<close> raises \<open>KeyError\<close> for a missing key and \<open>d[k] = v\<close> is
  \<^const>\<open>AList.update\<close>.
\<close>

definition dict_getitem :: "('k \<times> 'v) list \<Rightarrow> 'k \<Rightarrow> exn + 'v" where
  "dict_getitem d k = (case map_of d k of None \<Rightarrow> Inl KeyError | Some v \<Rightarrow> Inr v)"

text \<open>\<open>int(c)\<close> on a one-character string.\<close>

definition int_of_char :: "char \<Rightarrow> exn + nat" where
  "int_of_char c =
     (if 48 \<le> (of_char c :: nat) \<and> (of_char c :: nat) \<le> 57 then Inr (of_char c - 48)
      else Inl ValueError)"

text \<open>
  The event filter of one reactor: the rows whose \<open>Reference\<close> contains
  \<open>"Unit " + reactor_num\<close>, and in lenient mode (\<open>strict is False\<close>) also
  the rows whose \<open>Reference\<close> is null.
\<close>

definition fltr_reactor_events :: "bool \<Rightarrow> string \<Rightarrow> 'a series \<Rightarrow> bool list" where
  "fltr_reactor_events strict reactor_num reference =
     (let fltr = map (str_contains_na_false (''Unit '' @ reactor_num)) reference
      in if \<not> strict then map2 (\<or>) fltr (map isnull reference) else fltr)"

text \<open>One iteration of the loop over the reactor tables: the key and the merged table.\<close>

definition merge_reactor ::
  "('a cell \<Rightarrow> exn + int option) \<Rightarrow> bool \<Rightarrow> 'a::ord dataframe \<Rightarrow> string \<Rightarrow> 'a dataframe
     \<Rightarrow> exn + (nat \<times> 'a dataframe)" where
  "merge_reactor to_datetime strict events_df reactor_name reactor_data =
     (if reactor_name = [] then Inl IndexError else
      let reactor_num = [last reactor_name]
      in case getitem events_df ''Reference'' of
           Inl e \<Rightarrow> Inl e
         | Inr reference \<Rightarrow>
        (case str_accessor reference of
           Inl e \<Rightarrow> Inl e
         | Inr reference \<Rightarrow>
        (let fltr = fltr_reactor_events strict reactor_num reference
         in case merge_ordered reactor_data (select_rows events_df fltr) ''Timestamp'' of
              Inl e \<Rightarrow> Inl e
            | Inr cdf_merged \<Rightarrow>
           (case inoctime to_datetime cdf_merged None of
              Inl e \<Rightarrow> Inl e
            | Inr delta \<Rightarrow>
                (let cdf_merged = setitem cdf_merged ''InoculationTime []'' delta
                 in case int_of_char (last reactor_name) of
                      Inl e \<Rightarrow> Inl e
                    | Inr n \<Rightarrow> Inr (n, cdf_merged))))))"

fun merge_reactors ::
  "('a cell \<Rightarrow> exn + int option) \<Rightarrow> bool \<Rightarrow> 'a::ord dataframe
     \<Rightarrow> (string \<times> 'a dataframe) list \<Rightarrow> (nat \<times> 'a dataframe) list
     \<Rightarrow> exn + (nat \<times> 'a dataframe) list" where
  "merge_reactors to_datetime strict events_df [] new_cdf_dict = Inr new_cdf_dict"
| "merge_reactors to_datetime strict events_df ((reactor_name, reactor_data) # rest) new_cdf_dict =
     (case merge_reactor to_datetime strict events_df reactor_name reactor_data of
        Inl e \<Rightarrow> Inl e
      | Inr (n, cdf_merged) \<Rightarrow>
          merge_reactors to_datetime strict events_df rest
            (AList.update n cdf_merged new_cdf_dict))"

definition convert_dasdict_2_cdf_dict ::
  "(string \<Rightarrow> 'a pyfloat option) \<Rightarrow> ('a cell \<Rightarrow> exn + int option)
     \<Rightarrow> (string \<times> 'a::{zero,ord,abs} dataframe) list \<Rightarrow> bool
     \<Rightarrow> exn + (nat \<times> 'a dataframe) list" where
  "convert_dasdict_2_cdf_dict to_float to_datetime dasdict strict =
     (let cdf_dict = filter (\<lambda>(x, df). prefix ''TrackData'' x) dasdict
      in case dict_getitem dasdict ''Events'' of
           Inl e \<Rightarrow> Inl e
         | Inr events \<Rightarrow>
             (case h_extract_volume_changes to_float events of
                Inl e \<Rightarrow> Inl e
              | Inr events_df \<Rightarrow> merge_reactors to_datetime strict events_df cdf_dict []))"

subsection \<open>Auxiliary definitions for the merge\<close>


text \<open>
  For the examples: a reader of clock times \<open>hh:mm\<close> in the place of
  \<open>pd.to_datetime\<close>, one reactor table and an event log.
\<close>

definition clock_datetime :: "'a cell \<Rightarrow> exn + int option" where
  "clock_datetime c =
     (case c of
        Null \<Rightarrow> Inr None
      | Str s \<Rightarrow>
          (if length s = 5 \<and> s ! 2 = CHR '':''
           then (case (digits_val 0 (take 2 s), digits_val 0 (drop 3 s)) of
                   (Some h, Some m) \<Rightarrow> Inr (Some (int (h * 60 + m) * 60000000000))
                 | _ \<Rightarrow> Inl ValueError)
           else Inl ValueError)
      | _ \<Rightarrow> Inl ValueError)"

definition example_trackdata :: "rat dataframe" where
  "example_trackdata =
     [(''Timestamp'', [Str ''10:00'', Str ''11:00'', Str ''12:00'']),
      (''Duration'', [Str ''0:00'', Str ''1:00'', Str ''2:00'']),
      (''InoculationTime []'', [Null, Str ''0:00'', Str ''1:00''])]"





section \<open>Column Name Normalizer: \<open>h_standardize_das_cdf_cols_names\<close>\<close>

text \<open>
  The character classes of the three regular expressions: \<open>[0-9]\<close> is the
  ASCII digits, \<open>\s\<close> the white space of Python's \<open>str\<close> patterns (below
  code point 256).
\<close>

definition is_digit :: "char \<Rightarrow> bool" where
  "is_digit c \<longleftrightarrow> 48 \<le> (of_char c :: nat) \<and> (of_char c :: nat) \<le> 57"

definition is_space :: "char \<Rightarrow> bool" where
  "is_space c \<longleftrightarrow>
     (let n = (of_char c :: nat)
      in (9 \<le> n \<and> n \<le> 13) \<or> (28 \<le> n \<and> n \<le> 32) \<or> n = 133 \<or> n = 160)"

text \<open>
  \<open>str.replace(r"Unit [0-9]\.", "", regex=True)\<close>: every match, scanning from
  the left, is removed.
\<close>

function sub_unit :: "string \<Rightarrow> string" where
  "sub_unit [] = []"
| "sub_unit (c # cs) =
     (if prefix ''Unit '' (c # cs) \<and> 6 < length (c # cs)
         \<and> is_digit ((c # cs) ! 5) \<and> (c # cs) ! 6 = CHR ''.''
      then sub_unit (drop 7 (c # cs))
      else c # sub_unit cs)"
  by pat_completeness auto
termination
  by (relation "measure length") auto

declare sub_unit.simps(2) [simp del]

text \<open>
  \<open>str.replace(r"\s?[0-9]\.", ".", regex=True)\<close>: at each position the
  optional white space is tried first, then the match without it.
\<close>

fun sub_digit_dot :: "string \<Rightarrow> string" where
  "sub_digit_dot (a # b # c # rest) =
     (if is_space a \<and> is_digit b \<and> c = CHR ''.'' then CHR ''.'' # sub_digit_dot rest
      else if is_digit a \<and> b = CHR ''.'' then CHR ''.'' # sub_digit_dot (c # rest)
      else a # sub_digit_dot (b # c # rest))"
| "sub_digit_dot [a, b] =
     (if is_digit a \<and> b = CHR ''.'' then ''.'' else a # sub_digit_dot [b])"
| "sub_digit_dot s = s"

text \<open>\<open>str.replace(r"[0-9]\s\[", " [", regex=True)\<close>.\<close>

fun sub_digit_bracket :: "string \<Rightarrow> string" where
  "sub_digit_bracket (a # b # c # rest) =
     (if is_digit a \<and> is_space b \<and> c = CHR ''[''
      then CHR '' '' # CHR ''['' # sub_digit_bracket rest
      else a # sub_digit_bracket (b # c # rest))"
| "sub_digit_bracket s = s"

text \<open>
  The lookup table from version-4 to version-5 names.  The micro sign of
  \<open>[\<mu>S]\<close> is code point 181.
\<close>

definition das_converter_dict :: "(string \<times> string) list" where
  "das_converter_dict =
     [(''Inoculation Time []'', ''InoculationTime []''),
      (''pH.Out []'', ''pH.Out [%]''),
      (''CTR [mM/h]'', ''CTR.PV [mMol/h]''),
      (''RQ []'', ''RQ.PV []''),
      (''AU []'', ''ODAU.PV []''),
      (''CX []'', ''ODCX.PV []''),
      (''Level.PV ['' @ [char_of (181 :: nat)] @ ''S]'',
         ''Lvl.PV ['' @ [char_of (181 :: nat)] @ ''S]''),
      (''MA.PV [g]'', ''BalA.MPV [g]''),
      (''MB.PV [g]'', ''BalB.MPV [g]''),
      (''Torque.PV [mNm]'', ''N.TStirPV [mNm]''),
      (''Offline.A []'', ''OfflineA.OfflineA []''),
      (''Offline.B []'', ''OfflineB.OfflineB []''),
      (''Offline.C []'', ''OfflineC.OfflineC []''),
      (''Offline.D []'', ''OfflineD.OfflineD []''),
      (''OTR [mM/h]'', ''OTR.PV [mMol/h]''),
      (''V.PV [mL]'', ''V.VPV [mL]'')]"

text \<open>\<open>Series.replace(dict)\<close>: a value equal to a key becomes the key's value.\<close>

definition replace_dict :: "(string \<times> string) list \<Rightarrow> string \<Rightarrow> string" where
  "replace_dict d s = (case map_of d s of None \<Rightarrow> s | Some v \<Rightarrow> v)"

definition standardize_name :: "string \<Rightarrow> string" where
  "standardize_name s =
     replace_dict das_converter_dict (sub_digit_bracket (sub_digit_dot (sub_unit s)))"

definition h_standardize_das_cdf_cols_names :: "string list \<Rightarrow> string list" where
  "h_standardize_das_cdf_cols_names cols_names = map standardize_name cols_names"

text \<open>The raw name of a measurement in the table of reactor unit \<open>d\<close>.\<close>

definition unit_column :: "char \<Rightarrow> string \<Rightarrow> string" where
  "unit_column d name = ''Unit '' @ [d] @ ''.'' @ name"

text \<open>
  The raw forms of a measurement name in the table of reactor unit \<open>d\<close>.  The
  controller software writes the unit number after a part of the name too: before
  a \<open>.\<close>, directly (\<open>XCO21.Out\<close>, version 5) or after a blank
  (\<open>XCO2 1.Out\<close>, version 4), and directly before the blank and bracket of the
  unit of measurement (\<open>CTR3 [mM/h]\<close>).  \<open>raw_names d name\<close> lists
  \<open>name\<close> with the number written at any choice of these places, the
  undecorated name first.
\<close>

fun bracket_raws :: "char \<Rightarrow> string \<Rightarrow> string list" where
  "bracket_raws d [] = [[]]"
| "bracket_raws d (c # s) =
     map ((#) c) (bracket_raws d s)
     @ (if c = CHR '' '' \<and> take 1 s = ''[''
        then map (\<lambda>r. d # c # r) (bracket_raws d s) else [])"

fun dot_raws :: "char \<Rightarrow> string \<Rightarrow> string list" where
  "dot_raws d [] = [[]]"
| "dot_raws d (c # s) =
     map ((#) c) (dot_raws d s)
     @ (if c = CHR ''.''
        then map (\<lambda>r. d # c # r) (dot_raws d s) @ map (\<lambda>r. CHR '' '' # d # c # r) (dot_raws d s)
        else [])"

definition raw_names :: "char \<Rightarrow> string \<Rightarrow> string list" where
  "raw_names d name = concat (map (dot_raws d) (bracket_raws d name))"

text \<open>
  Two conditions on a canonical name under which the rewrites undo the
  decoration: no digit or white space stands directly before a \<open>.\<close>, and the
  letters \<open>Un\<close> do not occur.
\<close>

fun no_space_dot :: "string \<Rightarrow> bool" where
  "no_space_dot (a # b # s) =
     (\<not> ((is_digit a \<or> is_space a) \<and> b = CHR ''.'') \<and> no_space_dot (b # s))"
| "no_space_dot s = True"

fun no_Un :: "string \<Rightarrow> bool" where
  "no_Un (a # b # s) = (\<not> (a = CHR ''U'' \<and> b = CHR ''n'') \<and> no_Un (b # s))"
| "no_Un s = True"

definition plain_name :: "string \<Rightarrow> bool" where
  "plain_name s \<longleftrightarrow> (\<forall>c \<in> set s. \<not> is_digit c) \<and> no_space_dot s \<and> no_Un s"

section \<open>Reading the sections: \<open>pd.read_csv\<close>, \<open>csv.reader\<close>\<close>

subsection \<open>Strings\<close>

definition CR :: char where "CR = char_of (13 :: nat)"
definition LF :: char where "LF = char_of (10 :: nat)"

definition is_break :: "char \<Rightarrow> bool" where
  "is_break c \<longleftrightarrow> c = CR \<or> c = LF"

text \<open>\<open>s.split(sep)\<close> for a non-empty separator: the pieces between its occurrences, found from the left.\<close>

function split_acc :: "string \<Rightarrow> string \<Rightarrow> string \<Rightarrow> string list" where
  "split_acc sep acc [] = [rev acc]"
| "split_acc sep acc (c # cs) =
     (if sep \<noteq> [] \<and> prefix sep (c # cs)
      then rev acc # split_acc sep [] (drop (length sep) (c # cs))
      else split_acc sep (c # acc) cs)"
  by pat_completeness auto
termination
  by (relation "measure (\<lambda>(sep, acc, s). length s)") auto

declare split_acc.simps(2) [simp del]

definition split_str :: "string \<Rightarrow> string \<Rightarrow> string list" where
  "split_str sep s = split_acc sep [] s"

text \<open>\<open>s.lstrip()\<close> removes leading white space, \<open>s.strip(chars)\<close> the leading and trailing characters of the set.\<close>

definition lstrip :: "string \<Rightarrow> string" where
  "lstrip s = dropWhile is_space s"

definition strip_chars :: "string \<Rightarrow> string \<Rightarrow> string" where
  "strip_chars chars s =
     rev (dropWhile (\<lambda>c. c \<in> set chars) (rev (dropWhile (\<lambda>c. c \<in> set chars) s)))"

text \<open>\<open>sep.join(xs)\<close>.\<close>

fun join :: "string \<Rightarrow> string list \<Rightarrow> string" where
  "join sep [] = []"
| "join sep [x] = x"
| "join sep (x # y # ys) = x @ sep @ join sep (y # ys)"

text \<open>\<open>str(n)\<close> for a natural number.\<close>

function str_of_nat :: "nat \<Rightarrow> string" where
  "str_of_nat n =
     (if n < 10 then [char_of (48 + n)] else str_of_nat (n div 10) @ [char_of (48 + n mod 10)])"
  by pat_completeness auto
termination
  by (relation "measure id") auto

declare str_of_nat.simps [simp del]

subsection \<open>\<open>csv.reader\<close>\<close>

text \<open>
  The reader of \<open>csv.reader(lines, delimiter=';', quotechar='"')\<close>, as the
  standard library's \<open>parse_process_char\<close> has it.  Its state is the parser
  state, the field being read and the fields read so far of the current record.
  The character \<open>None\<close> is the end-of-line mark the reader feeds itself after the
  last character of every line.  A quote opens a quoted field at the start of a
  field only; inside it a doubled quote is one quote, delimiters and line breaks
  are text, and the end of the line leaves the field open, so that the record
  goes on with the next line.  A line break outside quotes ends the record, and
  any character after it but a line break is an error.
\<close>

datatype csv_state = StartRecord | StartField | InField | InQuoted | QuoteInQuoted | EatCrnl

type_synonym reader = "csv_state \<times> string \<times> string list"

fun start_field :: "string \<Rightarrow> string list \<Rightarrow> char option \<Rightarrow> reader" where
  "start_field field fields None = (StartRecord, [], fields @ [field])"
| "start_field field fields (Some c) =
     (if is_break c then (EatCrnl, [], fields @ [field])
      else if c = CHR 0x22 then (InQuoted, field, fields)
      else if c = CHR '';'' then (StartField, [], fields @ [field])
      else (InField, field @ [c], fields))"

fun parse_process_char :: "reader \<Rightarrow> char option \<Rightarrow> exn + reader" where
  "parse_process_char (StartRecord, field, fields) c =
     (case c of
        None \<Rightarrow> Inr (StartRecord, field, fields)
      | Some x \<Rightarrow>
          if is_break x then Inr (EatCrnl, field, fields)
          else Inr (start_field field fields c))"
| "parse_process_char (StartField, field, fields) c = Inr (start_field field fields c)"
| "parse_process_char (InField, field, fields) c =
     (case c of
        None \<Rightarrow> Inr (StartRecord, [], fields @ [field])
      | Some x \<Rightarrow>
          if is_break x then Inr (EatCrnl, [], fields @ [field])
          else if x = CHR '';'' then Inr (StartField, [], fields @ [field])
          else Inr (InField, field @ [x], fields))"
| "parse_process_char (InQuoted, field, fields) c =
     (case c of
        None \<Rightarrow> Inr (InQuoted, field, fields)
      | Some x \<Rightarrow>
          if x = CHR 0x22 then Inr (QuoteInQuoted, field, fields)
          else Inr (InQuoted, field @ [x], fields))"
| "parse_process_char (QuoteInQuoted, field, fields) c =
     (case c of
        None \<Rightarrow> Inr (StartRecord, [], fields @ [field])
      | Some x \<Rightarrow>
          if x = CHR 0x22 then Inr (InQuoted, field @ [x], fields)
          else if x = CHR '';'' then Inr (StartField, [], fields @ [field])
          else if is_break x then Inr (EatCrnl, [], fields @ [field])
          else Inr (InField, field @ [x], fields))"
| "parse_process_char (EatCrnl, field, fields) c =
     (case c of
        None \<Rightarrow> Inr (StartRecord, field, fields)
      | Some x \<Rightarrow> if is_break x then Inr (EatCrnl, field, fields) else Inl CsvError)"

text \<open>The characters of a line, then the end-of-line mark.\<close>

fun process_chars :: "reader \<Rightarrow> string \<Rightarrow> exn + reader" where
  "process_chars r [] = Inr r"
| "process_chars r (c # cs) =
     (case parse_process_char r (Some c) of
        Inl e \<Rightarrow> Inl e
      | Inr r' \<Rightarrow> process_chars r' cs)"

definition process_line :: "reader \<Rightarrow> string \<Rightarrow> exn + reader" where
  "process_line r line =
     (case process_chars r line of
        Inl e \<Rightarrow> Inl e
      | Inr r' \<Rightarrow> parse_process_char r' None)"

text \<open>
  The records the reader yields: it takes lines until the parser is back at the
  start of a record, and starts afresh for the next record.  When the lines run
  out inside a quoted field, the record read so far is yielded.
\<close>

fun reader_records :: "reader \<Rightarrow> string list \<Rightarrow> exn + string list list" where
  "reader_records (st, field, fields) [] =
     (if field \<noteq> [] \<or> st = InQuoted then Inr [fields @ [field]] else Inr [])"
| "reader_records r (l # ls) =
     (case process_line r l of
        Inl e \<Rightarrow> Inl e
      | Inr (st, field, fields) \<Rightarrow>
          if st = StartRecord
          then map_sum id ((#) fields) (reader_records (StartRecord, [], []) ls)
          else reader_records (st, field, fields) ls)"

definition csv_reader :: "string list \<Rightarrow> exn + string list list" where
  "csv_reader lines = reader_records (StartRecord, [], []) lines"



subsection \<open>The tokenizer of \<open>pd.read_csv\<close>\<close>

text \<open>
  pandas' C tokenizer with \<open>sep=';'\<close> and its defaults (quote character \<open>"\<close>,
  doubled quotes, blank lines skipped), state by state as in \<open>tokenizer.c\<close>.  Its
  state is the parser state, the word being read, the words of the current line,
  the lines finished so far and the count \<open>file_lines\<close> of lines seen; the first
  \<open>skiprows\<close> lines are skipped.  \<open>\n\<close> ends a line, and so does \<open>\r\<close>, with a
  \<open>\n\<close> right after it belonging to the same line end; inside a quoted field
  both are text.  A line that is empty or holds blanks and tabs only is skipped.
  The tokenizer itself refuses a line that is too long; here it collects all
  lines, and \<open>pd_read_csv\<close> below checks the lengths.
\<close>

datatype ParserState =
    START_RECORD | START_FIELD | IN_FIELD | IN_QUOTED_FIELD | QUOTE_IN_QUOTED_FIELD
  | EAT_CRNL | EAT_CRNL_NOP | WHITESPACE_LINE
  | START_FIELD_IN_SKIP_LINE | IN_FIELD_IN_SKIP_LINE
  | IN_QUOTED_FIELD_IN_SKIP_LINE | QUOTE_IN_QUOTED_FIELD_IN_SKIP_LINE

type_synonym parser = "ParserState \<times> string \<times> string list \<times> string list list \<times> nat"

definition is_whitespace :: "char \<Rightarrow> bool" where
  "is_whitespace c \<longleftrightarrow> c = CHR '' '' \<or> c = char_of (9 :: nat)"

text \<open>
  A character at the start of a record.  In a line to skip, only a quote or the
  end of the line is looked at.
\<close>

fun tokenize_start :: "nat \<Rightarrow> string \<Rightarrow> string list \<Rightarrow> string list list \<Rightarrow> nat \<Rightarrow> char \<Rightarrow> parser" where
  "tokenize_start skiprows word words lines file_lines c =
     (if file_lines < skiprows then
        (if c = CHR 0x22 then (IN_QUOTED_FIELD_IN_SKIP_LINE, word, words, lines, file_lines)
         else if c = LF then (START_RECORD, [], [], lines, file_lines + 1)
         else (IN_FIELD_IN_SKIP_LINE, word, words, lines, file_lines))
      else if c = LF then (START_RECORD, word, words, lines, file_lines + 1)
      else if c = CR then (EAT_CRNL_NOP, word, words, lines, file_lines + 1)
      else if is_whitespace c then (WHITESPACE_LINE, word @ [c], words, lines, file_lines)
      else if c = CHR 0x22 then (IN_QUOTED_FIELD, word, words, lines, file_lines)
      else if c = CHR '';'' then (START_FIELD, [], words @ [word], lines, file_lines)
      else (IN_FIELD, word @ [c], words, lines, file_lines))"

text \<open>
  The other states.  After a \<open>\r\<close> (\<open>EAT_CRNL\<close>, \<open>EAT_CRNL_NOP\<close>) a character
  that does not belong to the line end is read again as the start of a record.
  In \<open>WHITESPACE_LINE\<close> the tokenizer has seen blanks only; at the first other
  character it goes back to the start of the line and reads it as a field, which
  is to read that character in \<open>IN_FIELD\<close> with the blanks as the word so
  far.
\<close>

fun tokenize_char :: "nat \<Rightarrow> parser \<Rightarrow> char \<Rightarrow> parser" where
  "tokenize_char skiprows (START_RECORD, word, words, lines, file_lines) c =
     tokenize_start skiprows word words lines file_lines c"
| "tokenize_char skiprows (START_FIELD, word, words, lines, file_lines) c =
     (if c = LF then (START_RECORD, [], [], lines @ [words @ [word]], file_lines + 1)
      else if c = CR then (EAT_CRNL, [], words @ [word], lines, file_lines)
      else if c = CHR 0x22 then (IN_QUOTED_FIELD, word, words, lines, file_lines)
      else if c = CHR '';'' then (START_FIELD, [], words @ [word], lines, file_lines)
      else (IN_FIELD, word @ [c], words, lines, file_lines))"
| "tokenize_char skiprows (IN_FIELD, word, words, lines, file_lines) c =
     (if c = LF then (START_RECORD, [], [], lines @ [words @ [word]], file_lines + 1)
      else if c = CR then (EAT_CRNL, [], words @ [word], lines, file_lines)
      else if c = CHR '';'' then (START_FIELD, [], words @ [word], lines, file_lines)
      else (IN_FIELD, word @ [c], words, lines, file_lines))"
| "tokenize_char skiprows (IN_QUOTED_FIELD, word, words, lines, file_lines) c =
     (if c = CHR 0x22 then (QUOTE_IN_QUOTED_FIELD, word, words, lines, file_lines)
      else (IN_QUOTED_FIELD, word @ [c], words, lines, file_lines))"
| "tokenize_char skiprows (QUOTE_IN_QUOTED_FIELD, word, words, lines, file_lines) c =
     (if c = CHR 0x22 then (IN_QUOTED_FIELD, word @ [c], words, lines, file_lines)
      else if c = CHR '';'' then (START_FIELD, [], words @ [word], lines, file_lines)
      else if c = LF then (START_RECORD, [], [], lines @ [words @ [word]], file_lines + 1)
      else if c = CR then (EAT_CRNL, [], words @ [word], lines, file_lines)
      else (IN_FIELD, word @ [c], words, lines, file_lines))"
| "tokenize_char skiprows (EAT_CRNL, word, words, lines, file_lines) c =
     (if c = LF then (START_RECORD, [], [], lines @ [words], file_lines + 1)
      else if c = CHR '';'' then (START_FIELD, [], [[]], lines @ [words], file_lines + 1)
      else tokenize_start skiprows [] [] (lines @ [words]) (file_lines + 1) c)"
| "tokenize_char skiprows (EAT_CRNL_NOP, word, words, lines, file_lines) c =
     (if c = LF \<or> c = CHR '';'' then (START_RECORD, word, words, lines, file_lines)
      else tokenize_start skiprows word words lines file_lines c)"
| "tokenize_char skiprows (WHITESPACE_LINE, word, words, lines, file_lines) c =
     (if c = LF then (START_RECORD, [], words, lines, file_lines + 1)
      else if c = CR then (EAT_CRNL_NOP, [], words, lines, file_lines + 1)
      else if is_whitespace c then (WHITESPACE_LINE, word @ [c], words, lines, file_lines)
      else if c = CHR '';'' then (START_FIELD, [], words @ [word], lines, file_lines)
      else (IN_FIELD, word @ [c], words, lines, file_lines))"
| "tokenize_char skiprows (START_FIELD_IN_SKIP_LINE, word, words, lines, file_lines) c =
     (if c = LF then (START_RECORD, [], [], lines, file_lines + 1)
      else if c = CR then (EAT_CRNL_NOP, word, words, lines, file_lines + 1)
      else if c = CHR 0x22 then (IN_QUOTED_FIELD_IN_SKIP_LINE, word, words, lines, file_lines)
      else if c = CHR '';'' then (START_FIELD_IN_SKIP_LINE, word, words, lines, file_lines)
      else (IN_FIELD_IN_SKIP_LINE, word, words, lines, file_lines))"
| "tokenize_char skiprows (IN_FIELD_IN_SKIP_LINE, word, words, lines, file_lines) c =
     (if c = LF then (START_RECORD, [], [], lines, file_lines + 1)
      else if c = CR then (EAT_CRNL_NOP, word, words, lines, file_lines + 1)
      else if c = CHR '';'' then (START_FIELD_IN_SKIP_LINE, word, words, lines, file_lines)
      else (IN_FIELD_IN_SKIP_LINE, word, words, lines, file_lines))"
| "tokenize_char skiprows (IN_QUOTED_FIELD_IN_SKIP_LINE, word, words, lines, file_lines) c =
     (if c = CHR 0x22 then (QUOTE_IN_QUOTED_FIELD_IN_SKIP_LINE, word, words, lines, file_lines)
      else (IN_QUOTED_FIELD_IN_SKIP_LINE, word, words, lines, file_lines))"
| "tokenize_char skiprows (QUOTE_IN_QUOTED_FIELD_IN_SKIP_LINE, word, words, lines, file_lines) c =
     (if c = LF then (START_RECORD, [], [], lines, file_lines + 1)
      else if c = CR then (EAT_CRNL_NOP, word, words, lines, file_lines + 1)
      else if c = CHR 0x22 then (IN_QUOTED_FIELD_IN_SKIP_LINE, word, words, lines, file_lines)
      else if c = CHR '';'' then (START_FIELD_IN_SKIP_LINE, word, words, lines, file_lines)
      else (IN_FIELD_IN_SKIP_LINE, word, words, lines, file_lines))"

fun tokenize_bytes :: "nat \<Rightarrow> parser \<Rightarrow> string \<Rightarrow> parser" where
  "tokenize_bytes skiprows p [] = p"
| "tokenize_bytes skiprows p (c # cs) = tokenize_bytes skiprows (tokenize_char skiprows p c) cs"

text \<open>
  The end of the text: an open field and line are finished, a line being skipped
  is dropped, and the end inside a quoted field is the \<open>ParserError\<close> ``EOF
  inside string''.
\<close>

fun parser_handle_eof :: "parser \<Rightarrow> exn + string list list" where
  "parser_handle_eof (st, word, words, lines, file_lines) =
     (if st = IN_QUOTED_FIELD then Inl ParserError
      else if st = IN_FIELD \<or> st = START_FIELD \<or> st = QUOTE_IN_QUOTED_FIELD
        then Inr (lines @ [words @ [word]])
      else if st = EAT_CRNL then Inr (lines @ [words])
      else Inr lines)"

definition tokenize_rows :: "nat \<Rightarrow> string \<Rightarrow> exn + string list list" where
  "tokenize_rows skiprows text =
     parser_handle_eof (tokenize_bytes skiprows (START_RECORD, [], [], [], 0) text)"


text \<open>The same for a line that the tokenizer skips.\<close>

fun corr_skip :: "csv_state \<Rightarrow> ParserState \<Rightarrow> bool" where
  "corr_skip StartField START_FIELD_IN_SKIP_LINE = True"
| "corr_skip InField IN_FIELD_IN_SKIP_LINE = True"
| "corr_skip InQuoted IN_QUOTED_FIELD_IN_SKIP_LINE = True"
| "corr_skip QuoteInQuoted QUOTE_IN_QUOTED_FIELD_IN_SKIP_LINE = True"
| "corr_skip st pst = False"

definition blank :: "string \<Rightarrow> bool" where
  "blank line \<longleftrightarrow> (\<forall>c \<in> set line. is_whitespace c)"

subsection \<open>\<open>pd.read_csv\<close>\<close>

text \<open>
  The table.  pandas converts a column of words to cells on its own (numbers for
  a column of numerals, null for the empty word and the other markers of a
  missing value, text otherwise); this conversion is the parameter \<open>infer\<close>.  A
  line with fewer words than the table is wide gives the empty word in the
  columns it does not reach.  The table is \<open>lead + length names\<close> wide; the \<open>lead\<close>
  leading columns become the row index, which the model does not keep.
\<close>

definition word_at :: "string list \<Rightarrow> nat \<Rightarrow> string" where
  "word_at line k = (if k < length line then line ! k else [])"

definition frame_of ::
  "(string list \<Rightarrow> 'a cell list) \<Rightarrow> string list \<Rightarrow> nat \<Rightarrow> string list list \<Rightarrow> 'a dataframe" where
  "frame_of infer names lead rows =
     map (\<lambda>i. (names ! i, infer (map (\<lambda>line. word_at line (lead + i)) rows))) [0..<length names]"

text \<open>
  \<open>pd.read_csv(text, sep=';')\<close>.  No line at all: \<open>EmptyDataError\<close>.  The first
  line is the header.  A first data line longer than the header fixes the width,
  its leading words becoming the row index; any later line longer than that
  width is a \<open>ParserError\<close>.  Labels are the header words as written (pandas
  renames empty and repeated labels).
\<close>

definition pd_read_csv :: "(string list \<Rightarrow> 'a cell list) \<Rightarrow> string \<Rightarrow> exn + 'a dataframe" where
  "pd_read_csv infer text =
     (case tokenize_rows 0 text of
        Inl e \<Rightarrow> Inl e
      | Inr [] \<Rightarrow> Inl EmptyDataError
      | Inr (header # rows) \<Rightarrow>
          (let width = (case rows of [] \<Rightarrow> length header
                        | r # _ \<Rightarrow> max (length header) (length r))
           in if \<exists>r \<in> set (tl rows). width < length r then Inl ParserError
              else Inr (frame_of infer header (width - length header) rows)))"

text \<open>
  \<open>pd.read_csv(text, names=names, sep=';', skiprows=1)\<close>.  Repeated names are
  refused with a \<open>ValueError\<close> before anything is read.  The first line of the
  text is skipped and every other line is a row.  No row and no name is
  \<open>EmptyDataError\<close>.  The width is the number of names, or that of the first
  row if it is longer; a later row longer than the width is a \<open>ParserError\<close>.
\<close>

definition pd_read_csv_names ::
  "(string list \<Rightarrow> 'a cell list) \<Rightarrow> string list \<Rightarrow> string \<Rightarrow> exn + 'a dataframe" where
  "pd_read_csv_names infer names text =
     (if \<not> distinct names then Inl ValueError
      else case tokenize_rows 1 text of
        Inl e \<Rightarrow> Inl e
      | Inr rows \<Rightarrow>
          (let width = (case rows of [] \<Rightarrow> length names
                        | r # _ \<Rightarrow> max (length names) (length r))
           in if width = 0 then Inl EmptyDataError
              else if \<exists>r \<in> set (tl rows). width < length r then Inl ParserError
              else Inr (frame_of infer names (width - length names) rows)))"

section \<open>Irregular-CSV Parser: \<open>h_parse_irregular_csv\<close>\<close>

definition unknown_names :: "nat \<Rightarrow> string list" where
  "unknown_names k = map (\<lambda>i. ''unknown'' @ str_of_nat (i + 1)) [0..<k]"

text \<open>
  \<open>next(reader)\<close> on a reader without a record raises \<open>StopIteration\<close>, \<open>max\<close>
  of no row raises \<open>ValueError\<close>, an error of the reader in any record ends the
  function, and the exceptions of \<open>read_csv\<close> are not caught.
\<close>

definition h_parse_irregular_csv ::
  "(string list \<Rightarrow> 'a cell list) \<Rightarrow> string list \<Rightarrow> exn + 'a dataframe" where
  "h_parse_irregular_csv infer irregular_csv =
     (case csv_reader irregular_csv of
        Inl e \<Rightarrow> Inl e
      | Inr [] \<Rightarrow> Inl StopIteration
      | Inr (header # rows) \<Rightarrow>
          if rows = [] then Inl ValueError
          else let num_cols = Max (set (map length rows));
                   names = header @ unknown_names (num_cols - length header);
                   csv_df = pd_read_csv_names infer names (join [LF] irregular_csv)
               in csv_df)"

section \<open>Section Splitter: \<open>convert_daszip_2_dasdict\<close>\<close>

text \<open>
  The state of the loop: the flag, the dictionary built so far, and the number of
  warnings issued.
\<close>

record 'a splitter =
  overwriting_risk :: bool
  sections_dict :: "(string \<times> 'a dataframe) list"
  warnings :: nat

text \<open>
  The name under which a section is stored, and the flag after it.  As in the
  source, \<open>setup_number\<close> is set to the empty string at the start of every
  iteration, before the only place that appends it.
\<close>

definition name_section :: "bool \<Rightarrow> string \<Rightarrow> string \<times> bool \<times> nat" where
  "name_section risk first_line =
     (let section_name = strip_chars [CHR ''['', CHR 0x22, CHR '']''] first_line;
          setup_number = [];
          section_name = (if risk then section_name @ setup_number else section_name);
          is_setup = (take 5 section_name = ''Setup'' \<and> section_name \<noteq> ''Setups'');
          setup_number = (if is_setup then [last section_name] else setup_number);
          warned = (if is_setup \<and> risk then 1 else 0);
          section_name = (if is_setup \<and> risk then butlast section_name else section_name);
          risk = (if is_setup then True else risk);
          risk = (if take 8 section_name = ''Profiles'' then False else risk)
      in (section_name, risk, warned))"

definition split_section ::
  "(string list \<Rightarrow> 'a cell list) \<Rightarrow> 'a splitter \<Rightarrow> string \<Rightarrow> exn + 'a splitter" where
  "split_section infer st section =
     (let section_lines_list = split_str [CR, LF] (lstrip section);
          (section_name, risk, warned) = name_section (overwriting_risk st) (hd section_lines_list);
          section_content = tl section_lines_list;
          st = st\<lparr>overwriting_risk := risk, warnings := warnings st + warned\<rparr>
      in case pd_read_csv infer (join [LF] section_content) of
           Inr section_df \<Rightarrow>
             (let section_df =
                    (if prefix ''TrackData'' section_name
                     then zip (h_standardize_das_cdf_cols_names (map fst section_df))
                              (map snd section_df)
                     else section_df)
              in Inr (st\<lparr>sections_dict := AList.update section_name section_df (sections_dict st)\<rparr>))
         | Inl EmptyDataError \<Rightarrow> Inr st
         | Inl ParserError \<Rightarrow>
             (case h_parse_irregular_csv infer section_content of
                Inl e \<Rightarrow> Inl e
              | Inr df \<Rightarrow>
                  Inr (st\<lparr>sections_dict := AList.update section_name df (sections_dict st)\<rparr>))
         | Inl e \<Rightarrow> Inl e)"

fun split_sections ::
  "(string list \<Rightarrow> 'a cell list) \<Rightarrow> 'a splitter \<Rightarrow> string list \<Rightarrow> exn + 'a splitter" where
  "split_sections infer st [] = Inr st"
| "split_sections infer st (section # rest) =
     (case split_section infer st section of
        Inl e \<Rightarrow> Inl e
      | Inr st' \<Rightarrow> split_sections infer st' rest)"

definition convert_daszip_2_dasdict ::
  "(string list \<Rightarrow> 'a cell list) \<Rightarrow> string \<Rightarrow> exn + (string \<times> 'a dataframe) list" where
  "convert_daszip_2_dasdict infer internal_file =
     (case split_sections infer \<lparr>overwriting_risk = False, sections_dict = [], warnings = 0\<rparr>
             (split_str [CR, LF, CR, LF] internal_file) of
        Inl e \<Rightarrow> Inl e
      | Inr st \<Rightarrow> Inr (sections_dict st))"

subsection \<open>Example documents\<close>

definition crlf :: string where
  "crlf = [CR, LF]"

text \<open>
  Two setup blocks, each with a \<open>Device\<close> section and closed by
  \<open>Profiles\<close>.
\<close>

definition two_setups :: string where
  "two_setups =
     ''[Setup1]'' @ crlf @ ''A;B'' @ crlf @ ''1;2'' @ crlf @ crlf
     @ ''[Device]'' @ crlf @ ''N'' @ crlf @ ''one'' @ crlf @ crlf
     @ ''[Profiles]'' @ crlf @ ''P'' @ crlf @ ''p1'' @ crlf @ crlf
     @ ''[Setup2]'' @ crlf @ ''A;B'' @ crlf @ ''3;4'' @ crlf @ crlf
     @ ''[Device]'' @ crlf @ ''N'' @ crlf @ ''two'' @ crlf @ crlf
     @ ''[Profiles]'' @ crlf @ ''P'' @ crlf @ ''p2''"

text \<open>A section with a column header and no data row, followed by an ordinary one.\<close>

definition header_only :: string where
  "header_only =
     ''[HeaderOnly]'' @ crlf @ ''X;Y'' @ crlf @ crlf
     @ ''[Other]'' @ crlf @ ''A;B'' @ crlf @ ''1;2''"


text \<open>
  A conversion for the examples: what pandas makes of a column of words that
  are text (no numeral, and no marker of a missing value but the empty word).
\<close>

definition text_cells :: "string list \<Rightarrow> rat cell list" where
  "text_cells ws = map (\<lambda>w. if w = [] then Null else Str w) ws"
section \<open>Verified properties\<close>

subsection \<open>Archive Reader\<close>

text \<open>
  C4. When no member name of the archive contains the requested pattern,
  \<open>read_daszip\<close> fails: the list of matches is empty and taking its first
  element raises (the specification's NotFoundError); no text is returned.
\<close>

theorem read_daszip_no_match_fails:
  assumes "\<forall>file \<in> set (namelist zf). \<not> sublist pattern file"
  shows "read_daszip decode zf pattern encoding = Inl IndexError"
proof -
  have "filter (\<lambda>file. sublist pattern file) (namelist zf) = []"
    using assms by (simp add: filter_empty_conv)
  then show ?thesis
    by (simp add: read_daszip_def)
qed

theorem read_daszip_no_match_fails_witness:
  "read_daszip (\<lambda>enc b. Inr b) [(''Readme.txt'', ''x''), (''Data.csv'', ''y'')]
        ''Control.csv'' ''ansi'' = Inl IndexError"
proof -
  have h: "\<forall>file \<in> set (namelist [(''Readme.txt'', ''x''), (''Data.csv'', ''y'')]).
       \<not> sublist ''Control.csv'' file"
    by (simp add: namelist_def sublist_code)
  show ?thesis
    by (rule read_daszip_no_match_fails [OF h])
qed

subsection \<open>Event Extractor\<close>

lemma collect_map_Inr: "collect (map Inr xs) = Inr xs"
  by (induction xs) simp_all

lemma map_of_setitem: "map_of (setitem df name col) = (map_of df)(name \<mapsto> col)"
  by (simp add: setitem_def update_conv')

lemma getitem_setitem:
  "getitem (setitem df name col) k = (if k = name then Inr col else getitem df k)"
  by (simp add: getitem_def map_of_setitem)

lemma vol_change_cell_parsed:
  assumes "\<forall>s. c = Str s \<and> prefix ''Added volume'' s \<longrightarrow> to_float (slice_13_m13 s) \<noteq> None"
  shows "vol_change_cell to_float (fillna_False (str_startswith ''Added volume'' c)) c
           = Inr (vol_change_of to_float c)"
  using assms by (cases c) (auto simp: vol_change_of_def)

lemma vol_change_column_parsed:
  assumes "\<forall>s. Str s \<in> set descr \<and> prefix ''Added volume'' s \<longrightarrow> to_float (slice_13_m13 s) \<noteq> None"
  shows "collect (map2 (vol_change_cell to_float)
            (map (fillna_False \<circ> str_startswith ''Added volume'') descr) descr)
         = Inr (map (vol_change_of to_float) descr)"
proof -
  have "map2 (vol_change_cell to_float)
            (map (fillna_False \<circ> str_startswith ''Added volume'') descr) descr
        = map Inr (map (vol_change_of to_float) descr)"
    using assms
  proof (induction descr)
    case Nil
    then show ?case by simp
  next
    case (Cons c cs)
    have "\<forall>s. c = Str s \<and> prefix ''Added volume'' s \<longrightarrow> to_float (slice_13_m13 s) \<noteq> None"
      using Cons.prems by auto
    from vol_change_cell_parsed [OF this] Cons show ?case by simp
  qed
  then show ?thesis by (simp only: collect_map_Inr)
qed

lemma h_extract_volume_changes_eq:
  assumes D: "getitem events_df ''Description'' = Inr descr"
      and S: "str_accessor descr = Inr descr"
      and P: "\<forall>s. Str s \<in> set descr \<and> prefix ''Added volume'' s \<longrightarrow> to_float (slice_13_m13 s) \<noteq> None"
  shows "\<exists>new_df. h_extract_volume_changes to_float events_df = Inr new_df
           \<and> getitem new_df ''Vol_added'' = Inr (map (where_ge_0 \<circ> vol_change_of to_float) descr)
           \<and> getitem new_df ''Vol_removed'' = Inr (map (where_lt_0_abs \<circ> vol_change_of to_float) descr)"
  using D S vol_change_column_parsed [OF P]
  by (simp add: h_extract_volume_changes_def Let_def getitem_setitem)

text \<open>
  C3. When the events table has a \<open>Description\<close> column of strings and every
  description starting with \<open>Added volume\<close> carries a number between its first
  13 and last 13 characters, the Event Extractor returns, and in every row:
  a description with that prefix whose number is positive has the number in
  \<open>Vol_added\<close> and null in \<open>Vol_removed\<close>; one whose number is negative has
  the absolute value in \<open>Vol_removed\<close> and null in \<open>Vol_added\<close>; a
  description without the prefix (or a null one) has null in both.
\<close>

theorem extract_volume_sign:
  fixes to_float :: "string \<Rightarrow> 'a::{zero,preorder,abs} pyfloat option"
  assumes D: "getitem events_df ''Description'' = Inr descr"
      and S: "str_accessor descr = Inr descr"
      and P: "\<forall>s. Str s \<in> set descr \<and> prefix ''Added volume'' s \<longrightarrow> to_float (slice_13_m13 s) \<noteq> None"
  shows "\<exists>new_df added removed.
           h_extract_volume_changes to_float events_df = Inr new_df
         \<and> getitem new_df ''Vol_added'' = Inr added
         \<and> getitem new_df ''Vol_removed'' = Inr removed
         \<and> length added = length descr \<and> length removed = length descr
         \<and> (\<forall>i < length descr.
              (\<forall>s v. descr ! i = Str s \<and> prefix ''Added volume'' s
                      \<and> to_float (slice_13_m13 s) = Some (Flt v) \<longrightarrow>
                   (0 < v \<longrightarrow> added ! i = Num v \<and> removed ! i = Null)
                 \<and> (v < 0 \<longrightarrow> removed ! i = Num \<bar>v\<bar> \<and> added ! i = Null))
            \<and> ((\<nexists>s. descr ! i = Str s \<and> prefix ''Added volume'' s) \<longrightarrow>
                   added ! i = Null \<and> removed ! i = Null))"
proof -
  from h_extract_volume_changes_eq [OF D S P]
  obtain new_df where R: "h_extract_volume_changes to_float events_df = Inr new_df"
    and A: "getitem new_df ''Vol_added'' = Inr (map (where_ge_0 \<circ> vol_change_of to_float) descr)"
    and B: "getitem new_df ''Vol_removed'' = Inr (map (where_lt_0_abs \<circ> vol_change_of to_float) descr)"
    by blast
  have pos: "where_ge_0 (Num v) = Num v \<and> where_lt_0_abs (Num v) = Null" if "0 < v" for v :: 'a
    using that by (auto simp: less_le_not_le)
  have neg: "where_ge_0 (Num v) = Null \<and> where_lt_0_abs (Num v) = Num \<bar>v\<bar>" if "v < 0" for v :: 'a
    using that by (auto simp: less_le_not_le)
  let ?a = "map (where_ge_0 \<circ> vol_change_of to_float) descr"
  let ?r = "map (where_lt_0_abs \<circ> vol_change_of to_float) descr"
  have row: "(\<forall>s v. descr ! i = Str s \<and> prefix ''Added volume'' s
                      \<and> to_float (slice_13_m13 s) = Some (Flt v) \<longrightarrow>
                   (0 < v \<longrightarrow> ?a ! i = Num v \<and> ?r ! i = Null)
                 \<and> (v < 0 \<longrightarrow> ?r ! i = Num \<bar>v\<bar> \<and> ?a ! i = Null))
            \<and> ((\<nexists>s. descr ! i = Str s \<and> prefix ''Added volume'' s) \<longrightarrow>
                   ?a ! i = Null \<and> ?r ! i = Null)" if "i < length descr" for i
  proof -
    have a: "?a ! i = where_ge_0 (vol_change_of to_float (descr ! i))"
      and r: "?r ! i = where_lt_0_abs (vol_change_of to_float (descr ! i))"
      using that by simp_all
    show ?thesis
      unfolding a r using pos neg
      by (cases "descr ! i") (auto simp: vol_change_of_def)
  qed
  have len: "length ?a = length descr" "length ?r = length descr"
    by simp_all
  show ?thesis
    using R A B len row by blast
qed

text \<open>
  C10. Under the same conditions, no row of the Event Extractor's output has
  both \<open>Vol_added\<close> and \<open>Vol_removed\<close> non-null, and a parsed volume of
  exactly 0 is stored as \<open>Vol_added = 0\<close> with \<open>Vol_removed\<close> null (the test
  for additions is \<open>>= 0\<close>).
\<close>

theorem extract_volume_exclusive:
  fixes to_float :: "string \<Rightarrow> 'a::{zero,preorder,abs} pyfloat option"
  assumes D: "getitem events_df ''Description'' = Inr descr"
      and S: "str_accessor descr = Inr descr"
      and P: "\<forall>s. Str s \<in> set descr \<and> prefix ''Added volume'' s \<longrightarrow> to_float (slice_13_m13 s) \<noteq> None"
  shows "\<exists>new_df added removed.
           h_extract_volume_changes to_float events_df = Inr new_df
         \<and> getitem new_df ''Vol_added'' = Inr added
         \<and> getitem new_df ''Vol_removed'' = Inr removed
         \<and> length added = length descr \<and> length removed = length descr
         \<and> (\<forall>i < length descr.
              (added ! i = Null \<or> removed ! i = Null)
            \<and> (\<forall>s. descr ! i = Str s \<and> prefix ''Added volume'' s
                      \<and> to_float (slice_13_m13 s) = Some (Flt 0) \<longrightarrow>
                   added ! i = Num 0 \<and> removed ! i = Null))"
proof -
  from h_extract_volume_changes_eq [OF D S P]
  obtain new_df where R: "h_extract_volume_changes to_float events_df = Inr new_df"
    and A: "getitem new_df ''Vol_added'' = Inr (map (where_ge_0 \<circ> vol_change_of to_float) descr)"
    and B: "getitem new_df ''Vol_removed'' = Inr (map (where_lt_0_abs \<circ> vol_change_of to_float) descr)"
    by blast
  have excl: "where_ge_0 c = Null \<or> where_lt_0_abs c = Null" for c :: "'a cell"
    by (cases c) (auto simp: less_le_not_le)
  have zero: "where_ge_0 (Num (0::'a)) = Num 0 \<and> where_lt_0_abs (Num (0::'a)) = Null"
    by simp
  let ?a = "map (where_ge_0 \<circ> vol_change_of to_float) descr"
  let ?r = "map (where_lt_0_abs \<circ> vol_change_of to_float) descr"
  have row: "(?a ! i = Null \<or> ?r ! i = Null)
            \<and> (\<forall>s. descr ! i = Str s \<and> prefix ''Added volume'' s
                      \<and> to_float (slice_13_m13 s) = Some (Flt 0) \<longrightarrow>
                   ?a ! i = Num 0 \<and> ?r ! i = Null)" if "i < length descr" for i
  proof -
    have a: "?a ! i = where_ge_0 (vol_change_of to_float (descr ! i))"
      and r: "?r ! i = where_lt_0_abs (vol_change_of to_float (descr ! i))"
      using that by simp_all
    show ?thesis
      unfolding a r using excl [of "vol_change_of to_float (descr ! i)"] zero
      by (auto simp: vol_change_of_def)
  qed
  have len: "length ?a = length descr" "length ?r = length descr"
    by simp_all
  show ?thesis
    using R A B len row by blast
qed


lemma example_events_description:
  "getitem example_events ''Description'' = Inr example_descr"
  by (simp add: getitem_def example_events_def example_descr_def)

lemma example_descr_str: "str_accessor example_descr = Inr example_descr"
  by (simp add: str_accessor_def example_descr_def)

lemma example_parse:
  "decimal_float (slice_13_m13 ''Added volume 5.00 mL to vessel'') = Some (Flt 5)"
  "decimal_float (slice_13_m13 ''Added volume -2.5 mL to vessel'') = Some (Flt (- (5 / 2)))"
  "decimal_float (slice_13_m13 ''Added volume 0 mL to vessel'') = Some (Flt 0)"
  by (simp_all add: slice_13_m13_def unsigned_decimal_def)

lemma example_descr_parses:
  "\<forall>s. Str s \<in> set example_descr \<and> prefix ''Added volume'' s
        \<longrightarrow> decimal_float (slice_13_m13 s) \<noteq> None"
  using example_parse by (auto simp: example_descr_def)

theorem extract_volume_sign_witness:
  "(\<exists>new_df added removed.
          h_extract_volume_changes decimal_float example_events = Inr new_df
        \<and> getitem new_df ''Vol_added'' = Inr added
        \<and> getitem new_df ''Vol_removed'' = Inr removed
        \<and> added ! 0 = Num 5 \<and> removed ! 0 = Null
        \<and> removed ! 1 = Num (5 / 2) \<and> added ! 1 = Null
        \<and> added ! 2 = Null \<and> removed ! 2 = Null)"
proof -
  note h1 = example_events_description and h2 = example_descr_str and h3 = example_descr_parses
  from extract_volume_sign [OF h1 h2 h3]
  obtain new_df added removed where
    R: "h_extract_volume_changes decimal_float example_events = Inr new_df"
       "getitem new_df ''Vol_added'' = Inr added"
       "getitem new_df ''Vol_removed'' = Inr removed"
    and rows: "\<forall>i < length example_descr.
              (\<forall>s v. example_descr ! i = Str s \<and> prefix ''Added volume'' s
                      \<and> decimal_float (slice_13_m13 s) = Some (Flt v) \<longrightarrow>
                   (0 < v \<longrightarrow> added ! i = Num v \<and> removed ! i = Null)
                 \<and> (v < 0 \<longrightarrow> removed ! i = Num \<bar>v\<bar> \<and> added ! i = Null))
            \<and> ((\<nexists>s. example_descr ! i = Str s \<and> prefix ''Added volume'' s) \<longrightarrow>
                   added ! i = Null \<and> removed ! i = Null)"
    by blast
  have r0: "added ! 0 = Num 5 \<and> removed ! 0 = Null"
    using rows [rule_format, of 0] example_parse(1) by (simp add: example_descr_def)
  have r1: "removed ! 1 = Num (5 / 2) \<and> added ! 1 = Null"
    using rows [rule_format, of 1] example_parse(2) by (simp add: example_descr_def)
  have r2: "added ! 2 = Null \<and> removed ! 2 = Null"
    using rows [rule_format, of 2] by (simp add: example_descr_def)
  show ?thesis
    using R r0 r1 r2 by blast
qed

theorem extract_volume_exclusive_witness:
  "(\<exists>new_df added removed.
          h_extract_volume_changes decimal_float example_events = Inr new_df
        \<and> getitem new_df ''Vol_added'' = Inr added
        \<and> getitem new_df ''Vol_removed'' = Inr removed
        \<and> added ! 3 = Num 0 \<and> removed ! 3 = Null
        \<and> (added ! 1 = Null \<or> removed ! 1 = Null))"
proof -
  note h1 = example_events_description and h2 = example_descr_str and h3 = example_descr_parses
  from extract_volume_exclusive [OF h1 h2 h3]
  obtain new_df added removed where
    R: "h_extract_volume_changes decimal_float example_events = Inr new_df"
       "getitem new_df ''Vol_added'' = Inr added"
       "getitem new_df ''Vol_removed'' = Inr removed"
    and rows: "\<forall>i < length example_descr.
              (added ! i = Null \<or> removed ! i = Null)
            \<and> (\<forall>s. example_descr ! i = Str s \<and> prefix ''Added volume'' s
                      \<and> decimal_float (slice_13_m13 s) = Some (Flt 0) \<longrightarrow>
                   added ! i = Num 0 \<and> removed ! i = Null)"
    by blast
  have r3: "added ! 3 = Num 0 \<and> removed ! 3 = Null"
    using rows [rule_format, of 3] example_parse(3) by (simp add: example_descr_def)
  have r1: "added ! 1 = Null \<or> removed ! 1 = Null"
    using rows [rule_format, of 1] by (simp add: example_descr_def)
  show ?thesis
    using R r3 r1 by blast
qed


subsection \<open>Reactor Merge Engine\<close>













lemma collect_nth:
  "collect rs = Inr xs \<Longrightarrow> i < length rs \<Longrightarrow> rs ! i = Inr (xs ! i)"
proof (induction rs arbitrary: xs i)
  case Nil
  then show ?case by simp
next
  case (Cons r rs)
  then show ?case
    by (cases i) (auto split: sum.splits)
qed



















text \<open>
  C5. A DasDict without an \<open>Events\<close> section makes
  \<open>convert_dasdict_2_cdf_dict\<close> fail: \<open>dasdict["Events"]\<close> raises
  \<open>KeyError\<close> (the specification's MissingSectionError), in either mode and
  before any reactor table is merged.
\<close>

theorem convert_without_events_fails:
  assumes "''Events'' \<notin> fst ` set dasdict"
  shows "convert_dasdict_2_cdf_dict to_float to_datetime dasdict strict = Inl KeyError"
proof -
  have "map_of dasdict ''Events'' = None"
    using assms by (simp add: map_of_eq_None_iff)
  then show ?thesis
    by (simp add: convert_dasdict_2_cdf_dict_def dict_getitem_def)
qed

theorem convert_without_events_fails_witness:
  "convert_dasdict_2_cdf_dict decimal_float clock_datetime
     [(''TrackData1'', example_trackdata)] True = Inl KeyError"
proof -
  have h: "''Events'' \<notin> fst ` set [(''TrackData1'', example_trackdata)]"
    by simp
  show ?thesis
    by (rule convert_without_events_fails [OF h])
qed

lemma first_valid_index_Some:
  "first_valid_index col = Some k
     \<Longrightarrow> k < length col \<and> \<not> isnull (col ! k) \<and> (\<forall>j < k. isnull (col ! j))"
proof (induction col arbitrary: k)
  case Nil
  then show ?case by simp
next
  case (Cons c cs)
  show ?case
  proof (cases "isnull c")
    case True
    with Cons.prems obtain k' where k': "first_valid_index cs = Some k'" "k = Suc k'"
      by auto
    from Cons.IH [OF k'(1)] True k'(2) show ?thesis
      by (auto simp: less_Suc_eq_0_disj)
  next
    case False
    with Cons.prems show ?thesis by simp
  qed
qed

lemma collect_map_total:
  assumes "\<forall>c \<in> set xs. \<exists>t. f c = Inr t"
  shows "\<exists>ys. collect (map f xs) = Inr ys \<and> length ys = length xs
            \<and> (\<forall>i < length xs. f (xs ! i) = Inr (ys ! i))"
  using assms
proof (induction xs)
  case Nil
  then show ?case by simp
next
  case (Cons x xs)
  then obtain t ys where t: "f x = Inr t"
    and ys: "collect (map f xs) = Inr ys" "length ys = length xs"
            "\<forall>i < length xs. f (xs ! i) = Inr (ys ! i)"
    by auto
  then show ?case
    by (auto simp: nth_Cons split: nat.splits)
qed

text \<open>
  C6 (as amended). Without an explicit inoculation instant, when the table has a
  third column with a non-null cell and every first-column cell converts to an
  instant, \<open>inoctime\<close> returns; the reference instant is the first-column
  timestamp of the first row whose third-column cell is not null; every row's
  value is that row's timestamp minus the reference instant, a signed time
  difference (\<open>Timedelta\<close>, null when either instant is \<open>NaT\<close>); and that
  column is what the merged table holds under \<open>InoculationTime []\<close>.
\<close>

theorem inoctime_reference_row:
  assumes M: "iloc_col cdf 2 = Inr marker"
      and T: "iloc_col cdf 0 = Inr ts"
      and F: "first_valid_index marker = Some k"
      and K: "k < length ts"
      and P: "\<forall>c \<in> set ts. \<exists>t. to_datetime c = Inr t"
  shows "\<not> isnull (marker ! k) \<and> (\<forall>j < k. isnull (marker ! j))
       \<and> (\<exists>delta inoct.
             inoctime to_datetime cdf None = Inr delta
           \<and> to_datetime (ts ! k) = Inr inoct
           \<and> length delta = length ts
           \<and> (\<forall>i < length ts. \<forall>t. to_datetime (ts ! i) = Inr t \<longrightarrow>
                  delta ! i = sub_datetime t inoct)
           \<and> (\<forall>i < length ts. \<forall>t r. to_datetime (ts ! i) = Inr (Some t) \<and> inoct = Some r \<longrightarrow>
                  delta ! i = Timedelta (t - r))
           \<and> getitem (setitem cdf ''InoculationTime []'' delta) ''InoculationTime []'' = Inr delta)"
proof -
  from first_valid_index_Some [OF F]
  have first: "\<not> isnull (marker ! k) \<and> (\<forall>j < k. isnull (marker ! j))" by simp
  from P K obtain inoct where R: "to_datetime (ts ! k) = Inr inoct"
    by (meson nth_mem)
  from collect_map_total [OF P] obtain timestamp where
    C: "collect (map to_datetime ts) = Inr timestamp"
    and L: "length timestamp = length ts"
    and N: "\<forall>i < length ts. to_datetime (ts ! i) = Inr (timestamp ! i)"
    by blast
  let ?delta = "map (\<lambda>t. sub_datetime t inoct) timestamp"
  have run: "inoctime to_datetime cdf None = Inr ?delta"
    by (simp add: inoctime_def M T F K R C)
  have rows: "\<forall>i < length ts. \<forall>t. to_datetime (ts ! i) = Inr t \<longrightarrow> ?delta ! i = sub_datetime t inoct"
    using N L by auto
  have rows': "\<forall>i < length ts. \<forall>t r. to_datetime (ts ! i) = Inr (Some t) \<and> inoct = Some r \<longrightarrow>
                  ?delta ! i = Timedelta (t - r)"
    using N L by auto
  have set: "getitem (setitem cdf ''InoculationTime []'' ?delta) ''InoculationTime []'' = Inr ?delta"
    by (simp add: getitem_setitem)
  have len: "length ?delta = length ts" using L by simp
  show ?thesis
    using first run R len rows rows' set by blast
qed

lemma example_inoctime:
  "inoctime clock_datetime example_trackdata None
     = Inr [Timedelta (- 3600000000000), Timedelta 0, Timedelta 3600000000000]"
  by code_simp

text \<open>
  C6 as stated fails: the values are time differences, not numbers of hours.  On
  a table with timestamps 10:00, 11:00, 12:00 and the first non-null marker in
  the second row the result is \<open>-1 h, 0, +1 h\<close> as \<open>Timedelta\<close> values (in
  nanoseconds), not the floats \<open>-1.0, 0.0, 1.0\<close>; the docstring of
  \<open>inoctime\<close> announces the conversion to hours as future work.
\<close>

theorem inoctime_not_hours:
  "inoctime clock_datetime example_trackdata None
     = Inr [Timedelta (- 3600000000000), Timedelta 0, Timedelta 3600000000000]
   \<and> inoctime clock_datetime example_trackdata None \<noteq> Inr [Num (- 1), Num 0, Num 1]"
  by (simp add: example_inoctime)

theorem inoctime_reference_row_witness:
  "\<exists>delta. inoctime clock_datetime example_trackdata None = Inr delta
       \<and> clock_datetime (Str ''11:00'' :: rat cell) = Inr (Some 39600000000000)
       \<and> clock_datetime (Str ''12:00'' :: rat cell) = Inr (Some 43200000000000)
       \<and> delta ! 2 = Timedelta 3600000000000"
proof -
  let ?ts = "[Str ''10:00'', Str ''11:00'', Str ''12:00''] :: rat series"
  let ?marker = "[Null, Str ''0:00'', Str ''1:00''] :: rat series"
  have M: "iloc_col example_trackdata 2 = Inr ?marker"
    and T: "iloc_col example_trackdata 0 = Inr ?ts"
    by (simp_all add: iloc_col_def example_trackdata_def)
  have F: "first_valid_index ?marker = Some 1" by simp
  have K: "(1::nat) < length ?ts" by simp
  have c0: "clock_datetime (Str ''10:00'' :: rat cell) = Inr (Some 36000000000000)"
    and c1: "clock_datetime (Str ''11:00'' :: rat cell) = Inr (Some 39600000000000)"
    and c2: "clock_datetime (Str ''12:00'' :: rat cell) = Inr (Some 43200000000000)"
    by (simp_all add: clock_datetime_def)
  have P: "\<forall>c \<in> set ?ts. \<exists>t. clock_datetime c = Inr t"
    using c0 c1 c2 by simp
  from inoctime_reference_row [OF M T F K P]
  obtain delta inoct where
    run: "inoctime clock_datetime example_trackdata None = Inr delta"
    and ref: "clock_datetime (?ts ! 1) = Inr inoct"
    and rows: "\<forall>i < length ?ts. \<forall>t r. clock_datetime (?ts ! i) = Inr (Some t) \<and> inoct = Some r \<longrightarrow>
                  delta ! i = Timedelta (t - r)"
    by blast
  from ref c1 have inoct: "inoct = Some 39600000000000" by simp
  from rows [rule_format, of 2 43200000000000 39600000000000] c2 inoct
  have "delta ! 2 = Timedelta 3600000000000" by simp
  with run c1 c2 show ?thesis by blast
qed

subsection \<open>Column Name Normalizer\<close>

lemma digit_facts:
  assumes "is_digit d"
  shows "\<not> is_space d" "d \<noteq> CHR ''.''" "d \<noteq> CHR ''[''" "d \<noteq> CHR '' ''"
        "d \<noteq> CHR ''U''" "d \<noteq> CHR ''n''"
  using assms by (auto simp: is_digit_def is_space_def)

lemma char_facts:
  "is_space CHR '' ''" "\<not> is_digit CHR '' ''" "\<not> is_digit CHR ''.''" "\<not> is_digit CHR ''[''"
  by (simp_all add: is_space_def is_digit_def)

lemma dot_raws_cases:
  assumes "r \<in> set (dot_raws d (c # s))"
  obtains (keep) r' where "r' \<in> set (dot_raws d s)" "r = c # r'"
        | (digit) r' where "r' \<in> set (dot_raws d s)" "c = CHR ''.''" "r = d # c # r'"
        | (blank) r' where "r' \<in> set (dot_raws d s)" "c = CHR ''.''" "r = CHR '' '' # d # c # r'"
  using assms by (auto split: if_splits)

lemma dot_raws_hd:
  assumes "r \<in> set (dot_raws d s)" "r = b # rest"
  shows "\<exists>x s'. s = x # s' \<and> (b = x \<or> (x = CHR ''.'' \<and> (b = d \<or> b = CHR '' '')))"
  using assms by (cases s) (auto split: if_splits)

lemma dot_raws_digit_dot:
  assumes "r \<in> set (dot_raws d s)" "r = b # CHR ''.'' # rest" "d \<noteq> CHR ''.''"
  shows "(\<exists>s'. s = CHR ''.'' # s' \<and> b = d) \<or> (\<exists>s'. s = b # CHR ''.'' # s')"
proof (cases s)
  case Nil
  with assms show ?thesis by simp
next
  case (Cons x s1)
  from assms(1) [unfolded Cons] show ?thesis
  proof (cases rule: dot_raws_cases)
    case (keep r')
    with assms(2) have b: "b = x" and r': "r' = CHR ''.'' # rest" by simp_all
    from dot_raws_hd [OF keep(1) r'] assms(3) obtain s2 where "s1 = CHR ''.'' # s2"
      by auto
    with b Cons show ?thesis by simp
  next
    case (digit r')
    with assms(2) Cons show ?thesis by simp
  next
    case (blank r')
    with assms(2,3) show ?thesis by simp
  qed
qed

lemma sub_digit_dot_Cons:
  assumes "\<not> (is_digit c \<and> take 1 r = ''.'')"
      and "\<not> (is_space c \<and> (\<exists>b rest. r = b # CHR ''.'' # rest \<and> is_digit b))"
  shows "sub_digit_dot (c # r) = c # sub_digit_dot r"
proof (cases r)
  case Nil
  then show ?thesis by simp
next
  case (Cons b r1)
  show ?thesis
  proof (cases r1)
    case Nil
    with Cons assms show ?thesis by simp
  next
    case (Cons e r2)
    with \<open>r = b # r1\<close> assms show ?thesis by auto
  qed
qed

lemma sub_digit_dot_digit:
  assumes "is_digit d"
  shows "sub_digit_dot (d # CHR ''.'' # r) = CHR ''.'' # sub_digit_dot r"
  using assms digit_facts(1) [OF assms] by (cases r) simp_all

lemma no_space_dot_tl: "no_space_dot (c # s) \<Longrightarrow> no_space_dot s"
  by (cases s) simp_all

lemma sub_digit_dot_raw:
  assumes d: "is_digit d"
  shows "no_space_dot s \<Longrightarrow> r \<in> set (dot_raws d s) \<Longrightarrow> sub_digit_dot r = s"
proof (induction s arbitrary: r)
  case Nil
  then show ?case by simp
next
  case (Cons c s)
  note nd = digit_facts [OF d]
  have safe: "no_space_dot s" using Cons.prems(1) by (rule no_space_dot_tl)
  from Cons.prems(2) show ?case
  proof (cases rule: dot_raws_cases)
    case (keep r')
    have IH: "sub_digit_dot r' = s" using Cons.IH [OF safe keep(1)] .
    have A: "\<not> (is_digit c \<and> take 1 r' = ''.'')"
    proof
      assume a: "is_digit c \<and> take 1 r' = ''.''"
      then obtain rest where "r' = CHR ''.'' # rest" by (cases r') auto
      from dot_raws_hd [OF keep(1) this] nd obtain s' where "s = CHR ''.'' # s'" by auto
      with Cons.prems(1) a show False by simp
    qed
    have B: "\<not> (is_space c \<and> (\<exists>b rest. r' = b # CHR ''.'' # rest \<and> is_digit b))"
    proof
      assume a: "is_space c \<and> (\<exists>b rest. r' = b # CHR ''.'' # rest \<and> is_digit b)"
      then obtain b rest where r': "r' = b # CHR ''.'' # rest" and b: "is_digit b" by blast
      from dot_raws_digit_dot [OF keep(1) r' nd(2)]
      show False
      proof
        assume "\<exists>s'. s = CHR ''.'' # s' \<and> b = d"
        with Cons.prems(1) a show False by auto
      next
        assume "\<exists>s'. s = b # CHR ''.'' # s'"
        with safe b show False by auto
      qed
    qed
    show ?thesis
      unfolding keep(2) sub_digit_dot_Cons [OF A B] IH ..
  next
    case (digit r')
    have "sub_digit_dot r' = s" using Cons.IH [OF safe digit(1)] .
    then show ?thesis
      unfolding digit(3) digit(2) by (simp only: sub_digit_dot_digit [OF d])
  next
    case (blank r')
    have "sub_digit_dot r' = s" using Cons.IH [OF safe blank(1)] .
    then show ?thesis
      unfolding blank(3) blank(2) using d char_facts(1) by simp
  qed
qed

lemma bracket_raws_cases:
  assumes "r \<in> set (bracket_raws d (c # s))"
  obtains (keep) r' where "r' \<in> set (bracket_raws d s)" "r = c # r'"
        | (digit) r' where "r' \<in> set (bracket_raws d s)" "c = CHR '' ''" "take 1 s = ''[''"
            "r = d # c # r'"
  using assms by (auto split: if_splits)

lemma bracket_raws_hd:
  assumes "r \<in> set (bracket_raws d s)" "r = b # rest"
  shows "\<exists>x s'. s = x # s' \<and> (b = x \<or> (x = CHR '' '' \<and> b = d))"
  using assms by (cases s) (auto split: if_splits)

lemma bracket_raws_bracket:
  assumes "r \<in> set (bracket_raws d s)" "take 1 s = ''[''"
  shows "\<exists>r' s'. r = CHR ''['' # r' \<and> s = CHR ''['' # s' \<and> r' \<in> set (bracket_raws d s')"
proof -
  from assms(2) obtain s' where s: "s = CHR ''['' # s'" by (cases s) auto
  from assms(1) [unfolded s] show ?thesis
    by (cases rule: bracket_raws_cases) (simp_all add: s)
qed

lemma sub_digit_bracket_Cons:
  assumes "\<not> is_digit c"
  shows "sub_digit_bracket (c # r) = c # sub_digit_bracket r"
proof (cases r)
  case Nil
  then show ?thesis by simp
next
  case (Cons b r1)
  show ?thesis
  proof (cases r1)
    case Nil
    with Cons assms show ?thesis by simp
  next
    case (Cons e r2)
    with \<open>r = b # r1\<close> assms show ?thesis by simp
  qed
qed

lemma sub_digit_bracket_raw:
  assumes d: "is_digit d"
  shows "\<forall>c \<in> set s. \<not> is_digit c \<Longrightarrow> r \<in> set (bracket_raws d s)
    \<Longrightarrow> sub_digit_bracket r = s"
proof (induction s arbitrary: r)
  case Nil
  then show ?case by simp
next
  case (Cons c s)
  have c: "\<not> is_digit c" and s: "\<forall>c \<in> set s. \<not> is_digit c" using Cons.prems(1) by simp_all
  from Cons.prems(2) show ?case
  proof (cases rule: bracket_raws_cases)
    case (keep r')
    have "sub_digit_bracket r' = s" using Cons.IH [OF s keep(1)] .
    then show ?thesis unfolding keep(2) sub_digit_bracket_Cons [OF c] by simp
  next
    case (digit r')
    from bracket_raws_bracket [OF digit(1) digit(3)] obtain r2 s2
      where r': "r' = CHR ''['' # r2" and s2: "s = CHR ''['' # s2"
        and r2: "r2 \<in> set (bracket_raws d s2)" by blast
    have "sub_digit_bracket r' = s" using Cons.IH [OF s digit(1)] .
    then have "sub_digit_bracket r2 = s2"
      unfolding r' s2 sub_digit_bracket_Cons [OF char_facts(4)] by simp
    then show ?thesis
      unfolding digit(4) digit(2) r' s2 using d char_facts(1) by simp
  qed
qed

lemma no_space_dot_Cons:
  "no_space_dot (a # r) \<longleftrightarrow>
     (\<forall>b rest. r = b # rest \<longrightarrow> \<not> ((is_digit a \<or> is_space a) \<and> b = CHR ''.'')) \<and> no_space_dot r"
  by (cases r) auto

lemma no_space_dot_bracket_raws:
  assumes d: "is_digit d"
  shows "no_space_dot s \<Longrightarrow> r \<in> set (bracket_raws d s) \<Longrightarrow> no_space_dot r"
proof (induction s arbitrary: r)
  case Nil
  then show ?case by simp
next
  case (Cons c s)
  note nd = digit_facts [OF d]
  have safe: "no_space_dot s" using Cons.prems(1) by (rule no_space_dot_tl)
  from Cons.prems(2) show ?case
  proof (cases rule: bracket_raws_cases)
    case (keep r')
    have IH: "no_space_dot r'" using Cons.IH [OF safe keep(1)] .
    have "\<not> ((is_digit c \<or> is_space c) \<and> b = CHR ''.'')" if "r' = b # rest" for b rest
    proof -
      from bracket_raws_hd [OF keep(1) that] obtain x s'
        where s: "s = x # s'" and b: "b = x \<or> (x = CHR '' '' \<and> b = d)" by blast
      show ?thesis
      proof
        assume a: "(is_digit c \<or> is_space c) \<and> b = CHR ''.''"
        with b nd have "x = CHR ''.''" by auto
        with Cons.prems(1) s a show False by simp
      qed
    qed
    with IH show ?thesis unfolding keep(2) no_space_dot_Cons by blast
  next
    case (digit r')
    from bracket_raws_bracket [OF digit(1) digit(3)] obtain r2
      where r': "r' = CHR ''['' # r2" by blast
    have "no_space_dot r'" using Cons.IH [OF safe digit(1)] .
    then show ?thesis unfolding digit(4) digit(2) r' by simp
  qed
qed

lemma no_Un_Cons:
  "no_Un (a # r) \<longleftrightarrow>
     (\<forall>b rest. r = b # rest \<longrightarrow> \<not> (a = CHR ''U'' \<and> b = CHR ''n'')) \<and> no_Un r"
  by (cases r) auto

lemma no_Un_bracket_raws:
  assumes d: "is_digit d"
  shows "no_Un s \<Longrightarrow> r \<in> set (bracket_raws d s) \<Longrightarrow> no_Un r"
proof (induction s arbitrary: r)
  case Nil
  then show ?case by simp
next
  case (Cons c s)
  note nd = digit_facts [OF d]
  have safe: "no_Un s" using Cons.prems(1) unfolding no_Un_Cons by simp
  from Cons.prems(2) show ?case
  proof (cases rule: bracket_raws_cases)
    case (keep r')
    have IH: "no_Un r'" using Cons.IH [OF safe keep(1)] .
    have "\<not> (c = CHR ''U'' \<and> b = CHR ''n'')" if "r' = b # rest" for b rest
    proof -
      from bracket_raws_hd [OF keep(1) that] obtain x s'
        where s: "s = x # s'" and b: "b = x \<or> (x = CHR '' '' \<and> b = d)" by blast
      show ?thesis
      proof
        assume a: "c = CHR ''U'' \<and> b = CHR ''n''"
        with b nd have "x = CHR ''n''" by auto
        with Cons.prems(1) s a show False by simp
      qed
    qed
    with IH show ?thesis unfolding keep(2) no_Un_Cons by blast
  next
    case (digit r')
    have "no_Un r'" using Cons.IH [OF safe digit(1)] .
    then show ?thesis unfolding digit(4) digit(2) using nd by (simp add: no_Un_Cons)
  qed
qed

lemma no_Un_dot_raws:
  assumes d: "is_digit d"
  shows "no_Un s \<Longrightarrow> r \<in> set (dot_raws d s) \<Longrightarrow> no_Un r"
proof (induction s arbitrary: r)
  case Nil
  then show ?case by simp
next
  case (Cons c s)
  note nd = digit_facts [OF d]
  have safe: "no_Un s" using Cons.prems(1) unfolding no_Un_Cons by simp
  from Cons.prems(2) show ?case
  proof (cases rule: dot_raws_cases)
    case (keep r')
    have IH: "no_Un r'" using Cons.IH [OF safe keep(1)] .
    have "\<not> (c = CHR ''U'' \<and> b = CHR ''n'')" if "r' = b # rest" for b rest
    proof -
      from dot_raws_hd [OF keep(1) that] obtain x s'
        where s: "s = x # s'"
          and b: "b = x \<or> (x = CHR ''.'' \<and> (b = d \<or> b = CHR '' ''))" by blast
      show ?thesis
      proof
        assume a: "c = CHR ''U'' \<and> b = CHR ''n''"
        with b nd have "x = CHR ''n''" by auto
        with Cons.prems(1) s a show False by simp
      qed
    qed
    with IH show ?thesis unfolding keep(2) no_Un_Cons by blast
  next
    case (digit r')
    have "no_Un r'" using Cons.IH [OF safe digit(1)] .
    then show ?thesis unfolding digit(3) digit(2) using nd by (simp add: no_Un_Cons)
  next
    case (blank r')
    have "no_Un r'" using Cons.IH [OF safe blank(1)] .
    then show ?thesis unfolding blank(3) blank(2) using nd by (simp add: no_Un_Cons)
  qed
qed

lemma sub_unit_prefix:
  "is_digit d \<Longrightarrow> sub_unit (unit_column d name) = sub_unit name"
proof -
  have "unit_column d name = CHR ''U'' # (''nit '' @ [d] @ ''.'' @ name)"
    by (simp add: unit_column_def)
  moreover assume "is_digit d"
  ultimately show ?thesis
    by (simp add: sub_unit.simps(2))
qed

lemma sub_unit_no_Un: "no_Un s \<Longrightarrow> sub_unit s = s"
proof (induction s rule: sub_unit.induct)
  case 1
  then show ?case by simp
next
  case (2 c cs)
  have no: "\<not> (prefix ''Unit '' (c # cs) \<and> 6 < length (c # cs)
         \<and> is_digit ((c # cs) ! 5) \<and> (c # cs) ! 6 = CHR ''.'')"
  proof
    assume "prefix ''Unit '' (c # cs) \<and> 6 < length (c # cs)
         \<and> is_digit ((c # cs) ! 5) \<and> (c # cs) ! 6 = CHR ''.''"
    then have "prefix ''Unit '' (c # cs)" by (rule conjunct1)
    then obtain rest where "c # cs = CHR ''U'' # CHR ''n'' # rest"
      by (auto simp: prefix_def)
    with "2.prems" show False by simp
  qed
  have "no_Un cs" using "2.prems" unfolding no_Un_Cons by simp
  then have "sub_unit cs = cs"
    using "2.IH"(2) [OF no] by simp
  with no show ?case
    by (subst sub_unit.simps(2)) (simp only: if_False)
qed

lemma standardize_raw:
  assumes d: "is_digit d" and p: "plain_name name" and r: "raw \<in> set (raw_names d name)"
  shows "standardize_name (unit_column d raw) = replace_dict das_converter_dict name"
proof -
  from r obtain b where b: "b \<in> set (bracket_raws d name)" and rb: "raw \<in> set (dot_raws d b)"
    by (auto simp: raw_names_def)
  from p have nd: "\<forall>c \<in> set name. \<not> is_digit c" and ns: "no_space_dot name"
    and nu: "no_Un name"
    by (simp_all add: plain_name_def)
  have "no_Un raw"
    using no_Un_dot_raws [OF d no_Un_bracket_raws [OF d nu b] rb] .
  then have 1: "sub_unit (unit_column d raw) = raw"
    unfolding sub_unit_prefix [OF d] by (rule sub_unit_no_Un)
  have 2: "sub_digit_dot raw = b"
    using sub_digit_dot_raw [OF d no_space_dot_bracket_raws [OF d ns b] rb] .
  have 3: "sub_digit_bracket b = name"
    using sub_digit_bracket_raw [OF d nd b] .
  show ?thesis
    unfolding standardize_name_def 1 2 3 ..
qed

lemma raw_names_self: "name \<in> set (raw_names d name)"
proof -
  have b: "s \<in> set (bracket_raws d s)" for s by (induction s) auto
  have "s \<in> set (dot_raws d s)" for s by (induction s) auto
  with b [of name] show ?thesis unfolding raw_names_def by auto
qed

lemma dict_plain:
  "\<forall>(k, v) \<in> set das_converter_dict. plain_name k \<and> plain_name v"
  by code_simp

lemma dict_lookup:
  "\<forall>(k, v) \<in> set das_converter_dict.
      replace_dict das_converter_dict k = v \<and> replace_dict das_converter_dict v = v"
  by code_simp

lemma dict_pair_facts:
  assumes "(k, v) \<in> set das_converter_dict"
  shows "plain_name k \<and> plain_name v
       \<and> replace_dict das_converter_dict k = v \<and> replace_dict das_converter_dict v = v"
proof -
  from dict_plain assms
  have "case (k, v) of (k, v) \<Rightarrow> plain_name k \<and> plain_name v"
    by (rule bspec)
  moreover from dict_lookup assms
  have "case (k, v) of (k, v) \<Rightarrow>
          replace_dict das_converter_dict k = v \<and> replace_dict das_converter_dict v = v"
    by (rule bspec)
  ultimately show ?thesis by (simp only: prod.case)
qed

lemma unit_digit: "d \<in> set ''123456789'' \<Longrightarrow> is_digit d"
  by (auto simp: is_digit_def)

text \<open>
  C8. For every pair of the version-4 to version-5 lookup table and every
  reactor unit number 1 to 9, the normalizer maps every per-reactor column
  name of the version-4 name and every per-reactor column name of the
  version-5 name to the same canonical name, the version-5 one.  A per-reactor
  column name is \<open>Unit n.\<close> followed by a raw form of the name: the name with
  the unit number written before any of its dots (with or without a blank in
  front, as in \<open>XCO2 1.Out [%]\<close> and \<open>XCO21.Out [%]\<close>) and before any of its
  units in brackets (as in \<open>CTR3 [mM/h]\<close>); the undecorated name is one of
  the raw forms (\<open>raw_names_self\<close>).  All three rewrites and the lookup are
  needed for the result.
\<close>

theorem normalizer_v4_v5_agree:
  "\<forall>v4_name v5_name d raw4 raw5.
      (v4_name, v5_name) \<in> set das_converter_dict \<and> d \<in> set ''123456789''
      \<and> raw4 \<in> set (raw_names d v4_name) \<and> raw5 \<in> set (raw_names d v5_name) \<longrightarrow>
        h_standardize_das_cdf_cols_names [unit_column d raw4, unit_column d raw5]
          = [v5_name, v5_name]
      \<and> standardize_name (unit_column d raw4) = standardize_name (unit_column d raw5)"
proof (intro allI impI)
  fix v4_name v5_name d raw4 raw5
  assume a: "(v4_name, v5_name) \<in> set das_converter_dict \<and> d \<in> set ''123456789''
      \<and> raw4 \<in> set (raw_names d v4_name) \<and> raw5 \<in> set (raw_names d v5_name)"
  then have m: "(v4_name, v5_name) \<in> set das_converter_dict"
    and dm: "d \<in> set ''123456789''"
    and r4: "raw4 \<in> set (raw_names d v4_name)" and r5: "raw5 \<in> set (raw_names d v5_name)"
    by blast+
  from dm have d: "is_digit d" by (rule unit_digit)
  from dict_pair_facts [OF m]
  have p4: "plain_name v4_name" and p5: "plain_name v5_name"
    and lk4: "replace_dict das_converter_dict v4_name = v5_name"
    and lk5: "replace_dict das_converter_dict v5_name = v5_name"
    by blast+
  have s4: "standardize_name (unit_column d raw4) = v5_name"
    unfolding standardize_raw [OF d p4 r4] by (rule lk4)
  have s5: "standardize_name (unit_column d raw5) = v5_name"
    unfolding standardize_raw [OF d p5 r5] by (rule lk5)
  show "h_standardize_das_cdf_cols_names [unit_column d raw4, unit_column d raw5]
          = [v5_name, v5_name]
      \<and> standardize_name (unit_column d raw4) = standardize_name (unit_column d raw5)"
    unfolding h_standardize_das_cdf_cols_names_def list.map s4 s5 by simp
qed

theorem normalizer_v4_v5_agree_witness:
  "h_standardize_das_cdf_cols_names [''Unit 3.CTR3 [mM/h]'', ''Unit 3.CTR3.PV [mMol/h]'']
     = [''CTR.PV [mMol/h]'', ''CTR.PV [mMol/h]'']
   \<and> h_standardize_das_cdf_cols_names [''Unit 1.pH 1.Out []'', ''Unit 1.pH1.Out [%]'']
     = [''pH.Out [%]'', ''pH.Out [%]'']"
proof -
  have m: "(''CTR [mM/h]'', ''CTR.PV [mMol/h]'') \<in> set das_converter_dict
             \<and> CHR ''3'' \<in> set ''123456789''
             \<and> ''CTR3 [mM/h]'' \<in> set (raw_names CHR ''3'' ''CTR [mM/h]'')
             \<and> ''CTR3.PV [mMol/h]'' \<in> set (raw_names CHR ''3'' ''CTR.PV [mMol/h]'')"
    by code_simp
  have n: "(''pH.Out []'', ''pH.Out [%]'') \<in> set das_converter_dict
             \<and> CHR ''1'' \<in> set ''123456789''
             \<and> ''pH 1.Out []'' \<in> set (raw_names CHR ''1'' ''pH.Out []'')
             \<and> ''pH1.Out [%]'' \<in> set (raw_names CHR ''1'' ''pH.Out [%]'')"
    by code_simp
  have u: "unit_column CHR ''3'' ''CTR3 [mM/h]'' = ''Unit 3.CTR3 [mM/h]''"
       "unit_column CHR ''3'' ''CTR3.PV [mMol/h]'' = ''Unit 3.CTR3.PV [mMol/h]''"
       "unit_column CHR ''1'' ''pH 1.Out []'' = ''Unit 1.pH 1.Out []''"
       "unit_column CHR ''1'' ''pH1.Out [%]'' = ''Unit 1.pH1.Out [%]''"
    by (simp_all add: unit_column_def)
  from normalizer_v4_v5_agree [rule_format, OF m] normalizer_v4_v5_agree [rule_format, OF n]
  show ?thesis unfolding u by blast
qed

text \<open>The two examples of the docstring.\<close>

lemma docstring_examples:
  "h_standardize_das_cdf_cols_names
     [''Unit 1.XCO2 1.Out [%]'', ''Unit 1.XCO21.Out [%]'',
      ''Unit 1.Inoculation Time []'', ''Unit 1.InoculationTime []'']
   = [''XCO2.Out [%]'', ''XCO2.Out [%]'', ''InoculationTime []'', ''InoculationTime []'']"
  by code_simp

subsection \<open>Section Splitter\<close>

text \<open>
  C1. The source resets \<open>setup_number\<close> to the empty string at the start of
  every iteration, so nothing is ever appended to a section name.  In a document
  with two setup blocks, the \<open>Device\<close> section of setup 2 is stored under
  \<open>Device\<close>, not \<open>Device2\<close>, and replaces the \<open>Device\<close> table of
  setup 1 (the same happens to \<open>Profiles\<close>).  This holds whatever cells
  pandas makes of the words of a column.
\<close>

theorem device_in_setup2_stored_as_device:
  "convert_daszip_2_dasdict (infer :: string list \<Rightarrow> ('a :: equal) cell list) two_setups
   = Inr [(''Setup1'', [(''A'', infer [''1'']), (''B'', infer [''2''])]),
          (''Device'', [(''N'', infer [''two''])]),
          (''Profiles'', [(''P'', infer [''p2''])]),
          (''Setup2'', [(''A'', infer [''3'']), (''B'', infer [''4''])])]"
  by code_simp

text \<open>
  C9. A section that has a column header and no data row is not skipped:
  \<open>read_csv\<close> returns a table without rows for it, not \<open>EmptyDataError\<close>, and
  the section is stored under its name, against the comment of the source at the
  place where \<open>EmptyDataError\<close> is caught (``If there is no data: no need to
  create a key for that'').
\<close>

theorem header_only_section_stored:
  "convert_daszip_2_dasdict (infer :: string list \<Rightarrow> ('a :: equal) cell list) header_only
   = Inr [(''HeaderOnly'', [(''X'', infer []), (''Y'', infer [])]),
          (''Other'', [(''A'', infer [''1'']), (''B'', infer [''2''])])]"
  by code_simp

text \<open>
  Only a section without any line after its name (or with blank lines only) is
  skipped, and the sections after it are still read.
\<close>

lemma empty_body_section_skipped:
  "convert_daszip_2_dasdict (infer :: string list \<Rightarrow> ('a :: equal) cell list)
     (''[Empty]'' @ crlf @ crlf @ ''[Blank]'' @ crlf @ ''  '' @ crlf @ crlf
      @ ''[Other]'' @ crlf @ ''A;B'' @ crlf @ ''1;2'')
   = Inr [(''Other'', [(''A'', infer [''1'']), (''B'', infer [''2''])])]"
  by code_simp

subsection \<open>Irregular-CSV Parser\<close>

lemma char_lits:
  "LF = CHR 0x0A" "CR = CHR 0x0D" "char_of (9 :: nat) = CHR 0x09"
  by (code_simp+)


lemma whitespace_no_break: "is_whitespace c \<Longrightarrow> \<not> is_break c"
  by (auto simp: is_whitespace_def is_break_def char_lits)

























text \<open>The table of that body, cell by cell; the line of one blank is not a row.\<close>

lemma irregular_example_table:
  "h_parse_irregular_csv text_cells [''a;b'', ''x;y'', '' '', ''p;q;r;s'']
    = Inr [(''a'', [Str ''x'', Str ''p'']), (''b'', [Str ''y'', Str ''q'']),
           (''unknown1'', [Null, Str ''r'']), (''unknown2'', [Null, Str ''s''])]"
  by code_simp


end
